theory Spec2Isabelle
  imports Complex_Main
begin

section \<open>The numpy layer used by \<^verbatim>\<open>ci1d/datasetdefs.py\<close>\<close>

text \<open>
  The dataset classes of \<^verbatim>\<open>datasetdefs.py\<close> are thin wrappers around numpy arrays.
  This section fixes the part of numpy they call. Array entries are modelled as real
  numbers (exact arithmetic, no rounding, no infinities); the only not-a-number values
  that the classes can produce from such entries come from reductions whose divisor is
  zero, and those are kept as the value \<open>NaN\<close> of the result type \<open>fl\<close>.
  Arrays have rank 0 to 3; arrays of higher rank are outside the model.
\<close>

subsection \<open>Exceptions\<close>

text \<open>
  \<open>IndexError\<close>, \<open>ValueError\<close>, \<open>TypeError\<close>, \<open>LinAlgError\<close> and \<open>AxisError\<close>
  are the exceptions that Python and numpy raise on the paths modelled below. \<open>ShapeError\<close> and
  \<open>DimensionMismatchError\<close> are the error kinds named by the specification; no
  statement of the source raises them, and no definition below returns them.
\<close>

datatype pyerror =
    IndexError | ValueError | TypeError | LinAlgError | AxisError
  | ShapeError | DimensionMismatchError

subsection \<open>Arrays\<close>

datatype fl = NaN | Fin real

text \<open>
  An array of rank 2 or 3 carries its trailing dimensions explicitly, so that shapes
  with a leading dimension of zero, such as \<open>(0, 2)\<close>, are represented.
  \<open>Arr2 n rows\<close> has shape \<open>(length rows, n)\<close>;
  \<open>Arr3 q n blocks\<close> has shape \<open>(length blocks, q, n)\<close>.
\<close>

datatype 'a ndarray =
    Arr0 'a
  | Arr1 "'a list"
  | Arr2 nat "'a list list"
  | Arr3 nat nat "'a list list list"

fun shape :: "'a ndarray \<Rightarrow> nat list" where
  "shape (Arr0 x) = []"
| "shape (Arr1 xs) = [length xs]"
| "shape (Arr2 n rows) = [length rows, n]"
| "shape (Arr3 q n blocks) = [length blocks, q, n]"

text \<open>\<^verbatim>\<open>a.shape[k]\<close>: indexing the shape tuple past its end raises \<open>IndexError\<close>.\<close>

definition shape_at :: "'a ndarray \<Rightarrow> nat \<Rightarrow> pyerror + nat" where
  "shape_at a k = (if k < length (shape a) then Inr (shape a ! k) else Inl IndexError)"

text \<open>
  \<^verbatim>\<open>a[:, k, :]\<close>: basic indexing of the middle axis of a rank-3 array. A negative
  index counts from the end; an index outside \<open>[-q, q)\<close> raises \<open>IndexError\<close>, and so
  do three indices on an array of lower rank.
\<close>

fun np_take_node :: "'a ndarray \<Rightarrow> int \<Rightarrow> pyerror + 'a ndarray" where
  "np_take_node (Arr3 q n blocks) k =
     (if - int q \<le> k \<and> k < int q
      then Inr (Arr2 n (map (\<lambda>b. b ! nat (if k < 0 then k + int q else k)) blocks))
      else Inl IndexError)"
| "np_take_node (Arr2 n rows) k = Inl IndexError"
| "np_take_node (Arr1 xs) k = Inl IndexError"
| "np_take_node (Arr0 x) k = Inl IndexError"

text \<open>
  \<^verbatim>\<open>a[:, k]\<close> for a literal \<open>k \<ge> 0\<close>: on a rank-2 array column \<open>k\<close>, on a rank-3
  array row \<open>k\<close> of every block.
\<close>

fun np_take_col :: "'a ndarray \<Rightarrow> nat \<Rightarrow> pyerror + 'a ndarray" where
  "np_take_col (Arr3 q n blocks) k =
     (if k < q then Inr (Arr2 n (map (\<lambda>b. b ! k) blocks)) else Inl IndexError)"
| "np_take_col (Arr2 n rows) k =
     (if k < n then Inr (Arr1 (map (\<lambda>r. r ! k) rows)) else Inl IndexError)"
| "np_take_col (Arr1 xs) k = Inl IndexError"
| "np_take_col (Arr0 x) k = Inl IndexError"

text \<open>\<^verbatim>\<open>a.T\<close> reverses the axes.\<close>

fun np_T :: "'a ndarray \<Rightarrow> 'a ndarray" where
  "np_T (Arr0 x) = Arr0 x"
| "np_T (Arr1 xs) = Arr1 xs"
| "np_T (Arr2 n rows) = Arr2 (length rows) (map (\<lambda>i. map (\<lambda>r. r ! i) rows) [0..<n])"
| "np_T (Arr3 q n blocks) =
     Arr3 q (length blocks)
       (map (\<lambda>i. map (\<lambda>k. map (\<lambda>b. b ! k ! i) blocks) [0..<q]) [0..<n])"

subsection \<open>Reductions along axis 0\<close>

text \<open>
  \<open>reduce_axis0 f a\<close> applies \<open>f\<close> to every fibre of \<open>a\<close> along axis 0 (the
  observations). A rank-0 array has no axis 0.
\<close>

fun reduce_axis0 :: "('a list \<Rightarrow> 'b) \<Rightarrow> 'a ndarray \<Rightarrow> pyerror + 'b ndarray" where
  "reduce_axis0 f (Arr0 x) = Inl AxisError"
| "reduce_axis0 f (Arr1 xs) = Inr (Arr0 (f xs))"
| "reduce_axis0 f (Arr2 n rows) =
     Inr (Arr1 (map (\<lambda>i. f (map (\<lambda>r. r ! i) rows)) [0..<n]))"
| "reduce_axis0 f (Arr3 q n blocks) =
     Inr (Arr2 n (map (\<lambda>k. map (\<lambda>i. f (map (\<lambda>b. b ! k ! i) blocks)) [0..<n]) [0..<q]))"

definition average :: "real list \<Rightarrow> real" where
  "average xs = sum_list xs / real (length xs)"

text \<open>Sum of squared deviations from the average.\<close>

definition sum_sq_dev :: "real list \<Rightarrow> real" where
  "sum_sq_dev xs = sum_list (map (\<lambda>x. (x - average xs)\<^sup>2) xs)"

text \<open>\<^verbatim>\<open>mean\<close> of one fibre: \<open>0/0\<close>, that is nan, when there is no observation.\<close>

definition mean1 :: "real list \<Rightarrow> fl" where
  "mean1 xs = (if xs = [] then NaN else Fin (average xs))"

text \<open>
  \<^verbatim>\<open>std(ddof=d)\<close> of one fibre: the divisor is \<open>max (N - d) 0\<close>, and the result is
  nan when the divisor is zero.
\<close>

definition std1 :: "nat \<Rightarrow> real list \<Rightarrow> fl" where
  "std1 ddof xs =
     (if length xs \<le> ddof then NaN
      else Fin (sqrt (sum_sq_dev xs / real (length xs - ddof))))"

definition np_mean :: "real ndarray \<Rightarrow> pyerror + fl ndarray" where
  "np_mean a = reduce_axis0 mean1 a"

definition np_std :: "nat \<Rightarrow> real ndarray \<Rightarrow> pyerror + fl ndarray" where
  "np_std ddof a = reduce_axis0 (std1 ddof) a"

text \<open>
  \<^verbatim>\<open>min(axis=0)\<close> and \<^verbatim>\<open>max(axis=0)\<close> have no identity: reducing an axis of length
  zero raises \<open>ValueError\<close>.
\<close>

definition np_min :: "real ndarray \<Rightarrow> pyerror + real ndarray" where
  "np_min a =
     (case shape a of
        [] \<Rightarrow> Inl AxisError
      | j # _ \<Rightarrow> if j = 0 then Inl ValueError
                 else reduce_axis0 (\<lambda>c. fold min (tl c) (hd c)) a)"

definition np_max :: "real ndarray \<Rightarrow> pyerror + real ndarray" where
  "np_max a =
     (case shape a of
        [] \<Rightarrow> Inl AxisError
      | j # _ \<Rightarrow> if j = 0 then Inl ValueError
                 else reduce_axis0 (\<lambda>c. fold max (tl c) (hd c)) a)"

subsection \<open>Covariance\<close>

text \<open>
  \<^verbatim>\<open>np.cov(m, bias=b)\<close> for an array \<open>m\<close> whose rows are the variables and whose
  columns are the observations. With \<open>ddof\<close> not given, numpy sets
  \<open>ddof = 1 if bias == 0 else 0\<close> and \<open>fact = nobs - ddof\<close>; when \<open>fact \<le> 0\<close> it
  multiplies by \<open>1 / 0.0\<close> and every entry is nan. The result is squeezed: a single
  variable gives a rank-0 result. An empty list of variables gives the empty
  \<open>(0, 0)\<close> matrix. More than two dimensions raise \<open>ValueError\<close>.
\<close>

datatype cov_result = Cov0 fl | Cov2 "fl list list"

definition cov_ddof :: "int \<Rightarrow> nat" where
  "cov_ddof bias = (if bias = 0 then 1 else 0)"

definition centred :: "nat \<Rightarrow> real list \<Rightarrow> real list" where
  "centred nobs v = map (\<lambda>x. x - sum_list v / real nobs) v"

definition cov_entry :: "int \<Rightarrow> nat \<Rightarrow> real list \<Rightarrow> real list \<Rightarrow> fl" where
  "cov_entry bias nobs v w =
     (if nobs \<le> cov_ddof bias then NaN
      else Fin (sum_list (map2 (*) (centred nobs v) (centred nobs w))
                * (1 / real (nobs - cov_ddof bias))))"

definition cov_matrix :: "int \<Rightarrow> nat \<Rightarrow> real list list \<Rightarrow> cov_result" where
  "cov_matrix bias nobs vars =
     (let c = map (\<lambda>v. map (\<lambda>w. cov_entry bias nobs v w) vars) vars
      in if length vars = 1 then Cov0 (c ! 0 ! 0) else Cov2 c)"

fun np_cov :: "real ndarray \<Rightarrow> int \<Rightarrow> pyerror + cov_result" where
  "np_cov (Arr3 q n blocks) bias = Inl ValueError"
| "np_cov (Arr2 n vars) bias = Inr (cov_matrix bias n vars)"
| "np_cov (Arr1 xs) bias = Inr (cov_matrix bias (length xs) [xs])"
| "np_cov (Arr0 x) bias = Inr (cov_matrix bias 1 [[x]])"

subsection \<open>Singular value decomposition\<close>

text \<open>
  \<^verbatim>\<open>np.linalg.svd\<close> is an external numerical routine. It enters the model as a
  parameter \<open>svd\<close>, a function from a real matrix (list of rows) to the triple
  \<open>(U, s, R)\<close>, or to \<open>None\<close> when the routine raises \<open>LinAlgError\<close>. The wrapper
  \<open>linalg_svd\<close> adds what numpy does before the routine runs: an argument of rank 0
  is rejected, and so is a matrix holding nan.
\<close>

type_synonym matrix = "real list list"
type_synonym svd_routine = "matrix \<Rightarrow> (matrix \<times> real list \<times> matrix) option"

fun fin_val :: "fl \<Rightarrow> real" where
  "fin_val (Fin x) = x"
| "fin_val NaN = 0"

fun linalg_svd :: "svd_routine \<Rightarrow> cov_result \<Rightarrow> pyerror + (matrix \<times> real list \<times> matrix)" where
  "linalg_svd svd (Cov0 c) = Inl LinAlgError"
| "linalg_svd svd (Cov2 c) =
     (if NaN \<in> set (concat c) then Inl LinAlgError
      else (case svd (map (map fin_val) c) of
              None \<Rightarrow> Inl LinAlgError
            | Some usr \<Rightarrow> Inr usr))"

text \<open>
  \<^verbatim>\<open>u[:, k]\<close> on a matrix returned by the routine; the empty list is the \<open>(0, 0)\<close>
  matrix.
\<close>

definition column :: "matrix \<Rightarrow> nat \<Rightarrow> pyerror + real list" where
  "column u k =
     (if u = [] \<or> (\<exists>r \<in> set u. length r \<le> k) then Inl IndexError
      else Inr (map (\<lambda>r. r ! k) u))"

text \<open>\<^verbatim>\<open>np.dot\<close> of two vectors: lengths that differ raise \<open>ValueError\<close>.\<close>

definition np_dot :: "real list \<Rightarrow> real list \<Rightarrow> pyerror + real" where
  "np_dot v w =
     (if length v \<noteq> length w then Inl ValueError
      else Inr (sum_list (map2 (*) v w)))"

text \<open>\<^verbatim>\<open>u *= -1\<close>.\<close>

definition negated :: "matrix \<Rightarrow> matrix" where
  "negated u = map (map (\<lambda>x. x * (- 1))) u"

text \<open>
  \<^verbatim>\<open>np.array\<close> of a Python list of equally shaped matrices or vectors stacks them
  along a new first axis; of the empty list it is the empty rank-1 array.
\<close>

definition np_array_matrices :: "matrix list \<Rightarrow> real ndarray" where
  "np_array_matrices ms =
     (case ms of
        [] \<Rightarrow> Arr1 []
      | m # _ \<Rightarrow> Arr3 (length m) (case m of [] \<Rightarrow> 0 | r # _ \<Rightarrow> length r) ms)"

definition np_array_vectors :: "real list list \<Rightarrow> real ndarray" where
  "np_array_vectors vs =
     (case vs of
        [] \<Rightarrow> Arr1 []
      | v # _ \<Rightarrow> Arr2 (length v) vs)"

definition np_array_matrix :: "matrix \<Rightarrow> real ndarray" where
  "np_array_matrix m = Arr2 (case m of [] \<Rightarrow> 0 | r # _ \<Rightarrow> length r) m"

section \<open>The dataset classes\<close>

subsection \<open>Arrays as shared objects\<close>

text \<open>
  A numpy array is a mutable object, and the classes keep a reference to the array
  they are given: \<^verbatim>\<open>np.asarray\<close> returns an array argument as it is, without copying
  (a nested list is converted to a new array, which is then the argument).
  The store holds the array buffers, an address is a position in the store, and
  allocation appends. A reference is either a whole buffer or the view
  \<^verbatim>\<open>a[:, k, :]\<close> of one, which is what \<^verbatim>\<open>get_frame\<close> passes on; a view shares the
  buffer it was taken from.
\<close>

type_synonym addr = nat
type_synonym store = "real ndarray list"

datatype ref = Base addr | NodeView addr int

fun base :: "ref \<Rightarrow> addr" where
  "base (Base a) = a"
| "base (NodeView a k) = a"

fun deref :: "store \<Rightarrow> ref \<Rightarrow> pyerror + real ndarray" where
  "deref st (Base a) = Inr (st ! a)"
| "deref st (NodeView a k) = np_take_node (st ! a) k"

text \<open>In-place assignment to the array at address \<open>a\<close>.\<close>

definition store_write :: "store \<Rightarrow> addr \<Rightarrow> real ndarray \<Rightarrow> store" where
  "store_write st a v = st[a := v]"

subsection \<open>\<^verbatim>\<open>_Dataset\<close>\<close>

record Dataset =
  y :: ref
  J :: nat

definition Dataset_init :: "store \<Rightarrow> ref \<Rightarrow> pyerror + Dataset" where
  "Dataset_init st r =
     (case deref st r of Inl e \<Rightarrow> Inl e | Inr a \<Rightarrow>
      case shape_at a 0 of Inl e \<Rightarrow> Inl e | Inr j \<Rightarrow>
      Inr \<lparr>y = r, J = j\<rparr>)"

definition mean :: "store \<Rightarrow> 'a Dataset_scheme \<Rightarrow> pyerror + fl ndarray" where
  "mean st self = (case deref st (y self) of Inl e \<Rightarrow> Inl e | Inr a \<Rightarrow> np_mean a)"

definition range_prop ::
  "store \<Rightarrow> 'a Dataset_scheme \<Rightarrow> pyerror + (real ndarray \<times> real ndarray)" where
  "range_prop st self =
     (case deref st (y self) of Inl e \<Rightarrow> Inl e | Inr a \<Rightarrow>
      case np_min a of Inl e \<Rightarrow> Inl e | Inr lo \<Rightarrow>
      case np_max a of Inl e \<Rightarrow> Inl e | Inr hi \<Rightarrow>
      Inr (lo, hi))"

definition std :: "store \<Rightarrow> 'a Dataset_scheme \<Rightarrow> pyerror + fl ndarray" where
  "std st self = (case deref st (y self) of Inl e \<Rightarrow> Inl e | Inr a \<Rightarrow> np_std 1 a)"

definition nobservations :: "'a Dataset_scheme \<Rightarrow> nat" where
  "nobservations self = J self"

definition samplesize :: "'a Dataset_scheme \<Rightarrow> nat" where
  "samplesize self = J self"

subsection \<open>\<^verbatim>\<open>_Dataset1D\<close> and \<^verbatim>\<open>UnivariateDataset1D\<close>\<close>

record UnivariateDataset1D = Dataset +
  Q :: nat

definition UnivariateDataset1D_init :: "store \<Rightarrow> ref \<Rightarrow> pyerror + UnivariateDataset1D" where
  "UnivariateDataset1D_init st r =
     (case deref st r of Inl e \<Rightarrow> Inl e | Inr a \<Rightarrow>
      case shape_at a 0 of Inl e \<Rightarrow> Inl e | Inr j \<Rightarrow>
      case shape_at a 1 of Inl e \<Rightarrow> Inl e | Inr q \<Rightarrow>
      Inr \<lparr>y = r, J = j, Q = q\<rparr>)"

text \<open>
  \<^verbatim>\<open>_getx\<close>: \<^verbatim>\<open>np.arange(self.Q) if (x is None) else x\<close>. The method has no
  raising statement; its result is still given as a sum so that claims about its
  failure can be stated.
\<close>

definition getx :: "'a UnivariateDataset1D_scheme \<Rightarrow> real list option \<Rightarrow> pyerror + real list" where
  "getx self x = (case x of None \<Rightarrow> Inr (map real [0..<Q self]) | Some xs \<Rightarrow> Inr xs)"

definition nnodes :: "'a UnivariateDataset1D_scheme \<Rightarrow> nat" where
  "nnodes self = Q self"

subsection \<open>\<^verbatim>\<open>_BivariateDataset\<close> and \<^verbatim>\<open>BivariateDataset0D\<close>\<close>

text \<open>
  The fields \<open>priv_U\<close>, \<open>priv_s\<close> and \<open>priv_R\<close> are the attributes \<^verbatim>\<open>_U\<close>, \<^verbatim>\<open>_s\<close>
  and \<^verbatim>\<open>_R\<close>; \<open>None\<close> is their class-level default.
\<close>

record BivariateDataset = Dataset +
  I :: nat
  priv_U :: "real ndarray option"
  priv_s :: "real ndarray option"
  priv_R :: "real ndarray option"

definition get_cov :: "store \<Rightarrow> 'a BivariateDataset_scheme \<Rightarrow> int \<Rightarrow> pyerror + cov_result" where
  "get_cov st self bias =
     (case deref st (y self) of Inl e \<Rightarrow> Inl e | Inr a \<Rightarrow> np_cov (np_T a) bias)"

text \<open>\<^verbatim>\<open>cov = property(get_cov)\<close> calls \<^verbatim>\<open>get_cov\<close> with its default \<^verbatim>\<open>bias=1\<close>.\<close>

definition cov :: "store \<Rightarrow> 'a BivariateDataset_scheme \<Rightarrow> pyerror + cov_result" where
  "cov st self = get_cov st self 1"

text \<open>
  The four statements shared by both \<^verbatim>\<open>_init_svd\<close> methods: decompose one
  covariance matrix, test \<^verbatim>\<open>np.dot(U[:,0], [0,1]) < 0\<close>, and negate \<open>U\<close> and \<open>R\<close>
  when the test holds.
\<close>

definition decompose ::
  "svd_routine \<Rightarrow> cov_result \<Rightarrow> pyerror + (matrix \<times> real list \<times> matrix)" where
  "decompose svd w =
     (case linalg_svd svd w of Inl e \<Rightarrow> Inl e | Inr (u, s, r) \<Rightarrow>
      case column u 0 of Inl e \<Rightarrow> Inl e | Inr c \<Rightarrow>
      case np_dot c [0, 1] of Inl e \<Rightarrow> Inl e | Inr d \<Rightarrow>
      Inr (if d < 0 then (negated u, s, negated r) else (u, s, r)))"

definition init_svd ::
  "svd_routine \<Rightarrow> store \<Rightarrow> 'a BivariateDataset_scheme \<Rightarrow> pyerror + 'a BivariateDataset_scheme" where
  "init_svd svd st self =
     (case cov st self of Inl e \<Rightarrow> Inl e | Inr c \<Rightarrow>
      case decompose svd c of Inl e \<Rightarrow> Inl e | Inr (u, s, r) \<Rightarrow>
      Inr (self\<lparr>priv_U := Some (np_array_matrix u),
                priv_s := Some (Arr1 s),
                priv_R := Some (np_array_matrix r)\<rparr>))"

definition BivariateDataset_init ::
  "svd_routine \<Rightarrow> store \<Rightarrow> ref \<Rightarrow> pyerror + BivariateDataset" where
  "BivariateDataset_init svd st r =
     (case deref st r of Inl e \<Rightarrow> Inl e | Inr a \<Rightarrow>
      case shape_at a 0 of Inl e \<Rightarrow> Inl e | Inr j \<Rightarrow>
      case shape_at a 1 of Inl e \<Rightarrow> Inl e | Inr i \<Rightarrow>
      init_svd svd st \<lparr>y = r, J = j, I = i, priv_U = None, priv_s = None, priv_R = None\<rparr>)"

text \<open>
  \<^verbatim>\<open>Maxis\<close> and \<^verbatim>\<open>maxis\<close> index the stored array as \<^verbatim>\<open>_U[:,0]\<close> and
  \<^verbatim>\<open>_U[:,1]\<close>; subscripting the default \<^verbatim>\<open>None\<close> raises \<open>TypeError\<close>.
\<close>

definition Maxis :: "'a BivariateDataset_scheme \<Rightarrow> pyerror + real ndarray" where
  "Maxis self = (case priv_U self of None \<Rightarrow> Inl TypeError | Some u \<Rightarrow> np_take_col u 0)"

definition maxis :: "'a BivariateDataset_scheme \<Rightarrow> pyerror + real ndarray" where
  "maxis self = (case priv_U self of None \<Rightarrow> Inl TypeError | Some u \<Rightarrow> np_take_col u 1)"

definition ncomponents :: "'a BivariateDataset_scheme \<Rightarrow> nat" where
  "ncomponents self = J self"

text \<open>
  \<^verbatim>\<open>toarray\<close>: \<^verbatim>\<open>self.y.copy()\<close> allocates a new buffer holding the contents of
  \<^verbatim>\<open>self.y\<close> and returns a reference to it.
\<close>

definition toarray :: "store \<Rightarrow> 'a BivariateDataset_scheme \<Rightarrow> pyerror + (ref \<times> store)" where
  "toarray st self =
     (case deref st (y self) of Inl e \<Rightarrow> Inl e | Inr a \<Rightarrow>
      Inr (Base (length st), st @ [a]))"

subsection \<open>\<^verbatim>\<open>BivariateDataset1D\<close>\<close>

record BivariateDataset1D = BivariateDataset +
  Q :: nat

text \<open>
  The list comprehension of \<^verbatim>\<open>get_cov\<close>:
  \<^verbatim>\<open>[np.cov(self.y[:,i,:].T, bias=bias) for i in range(self.Q)]\<close>.
\<close>

fun cov_nodes :: "real ndarray \<Rightarrow> int \<Rightarrow> nat list \<Rightarrow> pyerror + cov_result list" where
  "cov_nodes a bias [] = Inr []"
| "cov_nodes a bias (i # ns) =
     (case np_take_node a (int i) of Inl e \<Rightarrow> Inl e | Inr f \<Rightarrow>
      case np_cov (np_T f) bias of Inl e \<Rightarrow> Inl e | Inr c \<Rightarrow>
      case cov_nodes a bias ns of Inl e \<Rightarrow> Inl e | Inr cs \<Rightarrow>
      Inr (c # cs))"

definition BivariateDataset1D_get_cov ::
  "store \<Rightarrow> 'a BivariateDataset1D_scheme \<Rightarrow> int \<Rightarrow> pyerror + cov_result list" where
  "BivariateDataset1D_get_cov st self bias =
     (case deref st (y self) of Inl e \<Rightarrow> Inl e | Inr a \<Rightarrow>
      cov_nodes a bias [0..<BivariateDataset1D.Q self])"

definition BivariateDataset1D_cov ::
  "store \<Rightarrow> 'a BivariateDataset1D_scheme \<Rightarrow> pyerror + cov_result list" where
  "BivariateDataset1D_cov st self = BivariateDataset1D_get_cov st self 1"

text \<open>The loop \<^verbatim>\<open>for w in W\<close> of \<^verbatim>\<open>BivariateDataset1D._init_svd\<close>.\<close>

fun decompose_nodes ::
  "svd_routine \<Rightarrow> cov_result list \<Rightarrow> pyerror + (matrix list \<times> real list list \<times> matrix list)" where
  "decompose_nodes svd [] = Inr ([], [], [])"
| "decompose_nodes svd (w # ws) =
     (case decompose svd w of Inl e \<Rightarrow> Inl e | Inr (u, s, r) \<Rightarrow>
      case decompose_nodes svd ws of Inl e \<Rightarrow> Inl e | Inr (us, ss, rs) \<Rightarrow>
      Inr (u # us, s # ss, r # rs))"

definition BivariateDataset1D_init_svd ::
  "svd_routine \<Rightarrow> store \<Rightarrow> 'a BivariateDataset1D_scheme
     \<Rightarrow> pyerror + 'a BivariateDataset1D_scheme" where
  "BivariateDataset1D_init_svd svd st self =
     (case BivariateDataset1D_get_cov st self 1 of Inl e \<Rightarrow> Inl e | Inr W \<Rightarrow>
      case decompose_nodes svd W of Inl e \<Rightarrow> Inl e | Inr (us, ss, rs) \<Rightarrow>
      Inr (self\<lparr>priv_U := Some (np_array_matrices us),
                priv_s := Some (np_array_vectors ss),
                priv_R := Some (np_array_matrices rs)\<rparr>))"

definition BivariateDataset1D_init ::
  "svd_routine \<Rightarrow> store \<Rightarrow> ref \<Rightarrow> pyerror + BivariateDataset1D" where
  "BivariateDataset1D_init svd st r =
     (case deref st r of Inl e \<Rightarrow> Inl e | Inr a \<Rightarrow>
      case shape_at a 0 of Inl e \<Rightarrow> Inl e | Inr j \<Rightarrow>
      case shape_at a 1 of Inl e \<Rightarrow> Inl e | Inr q \<Rightarrow>
      case shape_at a 2 of Inl e \<Rightarrow> Inl e | Inr i \<Rightarrow>
      BivariateDataset1D_init_svd svd st
        \<lparr>y = r, J = j, I = i, priv_U = None, priv_s = None, priv_R = None, Q = q\<rparr>)"

text \<open>
  \<^verbatim>\<open>get_frame\<close>: \<^verbatim>\<open>BivariateDataset0D(self.y[:,frame,:])\<close>. The index expression
  is evaluated first and makes a view; the constructor then keeps that view.
\<close>

definition get_frame ::
  "svd_routine \<Rightarrow> store \<Rightarrow> 'a BivariateDataset1D_scheme \<Rightarrow> int \<Rightarrow> pyerror + BivariateDataset" where
  "get_frame svd st self frame =
     (case deref st (y self) of Inl e \<Rightarrow> Inl e | Inr a \<Rightarrow>
      case np_take_node a frame of Inl e \<Rightarrow> Inl e | Inr v \<Rightarrow>
      case y self of
        Base ad \<Rightarrow> BivariateDataset_init svd st (NodeView ad frame)
      | NodeView ad k \<Rightarrow> Inl IndexError)"

subsection \<open>A decomposition routine for axis-aligned data\<close>

text \<open>
  The routine \<^verbatim>\<open>np.linalg.svd\<close> is a parameter of the model. To evaluate the
  classes at concrete inputs the parameter is instantiated with \<open>svd_axis_aligned\<close>,
  which decomposes a diagonal matrix: the identity triple in general, and for a
  \<open>2 \<times> 2\<close> matrix whose larger entry comes second the triple that swaps the axes,
  with a major axis pointing downwards, as a numerical routine is free to return.
\<close>

definition identity_matrix :: "nat \<Rightarrow> matrix" where
  "identity_matrix n = map (\<lambda>i. map (\<lambda>k. if i = k then 1 else 0) [0..<n]) [0..<n]"

definition svd_axis_aligned :: svd_routine where
  "svd_axis_aligned c =
     (if length c = 2 \<and> c ! 0 ! 0 < c ! 1 ! 1
      then Some ([[0, 1], [- 1, 0]], [c ! 1 ! 1, c ! 0 ! 0], [[0, - 1], [1, 0]])
      else Some (identity_matrix (length c), map (\<lambda>i. c ! i ! i) [0..<length c],
                 identity_matrix (length c)))"

subsection \<open>The contract of the decomposition routine\<close>

text \<open>
  What \<^verbatim>\<open>np.linalg.svd\<close> documents for a \<open>2 \<times> 2\<close> argument \<open>m\<close>: it returns
  \<open>(u, s, r)\<close> with \<open>m = u diag(s) r\<close>, the columns of \<open>u\<close> and the rows of \<open>r\<close>
  orthonormal, and the singular values \<open>s\<close> non-negative and in descending order.
  The signs of the columns of \<open>u\<close> are left open, as they are by the routine.
\<close>

definition two_by_two :: "matrix \<Rightarrow> bool" where
  "two_by_two m = (length m = 2 \<and> length (m ! 0) = 2 \<and> length (m ! 1) = 2)"

definition is_svd2 :: "matrix \<Rightarrow> matrix \<times> real list \<times> matrix \<Rightarrow> bool" where
  "is_svd2 m usr =
     (case usr of (u, s, r) \<Rightarrow>
        two_by_two m \<and> two_by_two u \<and> two_by_two r \<and> length s = 2 \<and>
        s ! 1 \<le> s ! 0 \<and> 0 \<le> s ! 1 \<and>
        (u ! 0 ! 0)\<^sup>2 + (u ! 1 ! 0)\<^sup>2 = 1 \<and> (u ! 0 ! 1)\<^sup>2 + (u ! 1 ! 1)\<^sup>2 = 1 \<and>
        u ! 0 ! 0 * u ! 0 ! 1 + u ! 1 ! 0 * u ! 1 ! 1 = 0 \<and>
        (r ! 0 ! 0)\<^sup>2 + (r ! 0 ! 1)\<^sup>2 = 1 \<and> (r ! 1 ! 0)\<^sup>2 + (r ! 1 ! 1)\<^sup>2 = 1 \<and>
        r ! 0 ! 0 * r ! 1 ! 0 + r ! 0 ! 1 * r ! 1 ! 1 = 0 \<and>
        m ! 0 ! 0 = u ! 0 ! 0 * s ! 0 * r ! 0 ! 0 + u ! 0 ! 1 * s ! 1 * r ! 1 ! 0 \<and>
        m ! 0 ! 1 = u ! 0 ! 0 * s ! 0 * r ! 0 ! 1 + u ! 0 ! 1 * s ! 1 * r ! 1 ! 1 \<and>
        m ! 1 ! 0 = u ! 1 ! 0 * s ! 0 * r ! 0 ! 0 + u ! 1 ! 1 * s ! 1 * r ! 1 ! 0 \<and>
        m ! 1 ! 1 = u ! 1 ! 0 * s ! 0 * r ! 0 ! 1 + u ! 1 ! 1 * s ! 1 * r ! 1 ! 1)"

section \<open>Properties\<close>

text \<open>The unfolding rules that evaluate the model at a concrete input.\<close>

lemmas evals = shape_at_def cov_matrix_def cov_entry_def cov_ddof_def centred_def column_def
  np_dot_def negated_def np_array_matrix_def np_array_matrices_def np_array_vectors_def
  decompose_def init_svd_def BivariateDataset_init_def cov_def get_cov_def Maxis_def maxis_def
  svd_axis_aligned_def identity_matrix_def Let_def BivariateDataset1D_init_def
  BivariateDataset1D_init_svd_def BivariateDataset1D_get_cov_def BivariateDataset1D_cov_def
  get_frame_def upt_rec

subsection \<open>The sign correction\<close>

lemma negated_eq: "negated u = map (map uminus) u"
  by (simp add: negated_def)

lemma column_negated: "column u k = Inr c \<Longrightarrow> column (negated u) k = Inr (map uminus c)"
  by (auto simp: column_def negated_def not_le split: if_splits)

lemma sum_list_map2_uminus:
  "sum_list (map2 (*) (map uminus v) w) = - sum_list (map2 (*) v (w::real list))"
proof (induction v arbitrary: w)
  case Nil
  then show ?case by simp
next
  case (Cons a v)
  then show ?case by (cases w) simp_all
qed

lemma np_dot_negated: "np_dot c w = Inr d \<Longrightarrow> np_dot (map uminus c) w = Inr (- d)"
  by (auto simp: np_dot_def sum_list_map2_uminus split: if_splits)

lemma decompose_cases:
  assumes "decompose svd w = Inr (u, s, r)"
  obtains u0 r0 c d where "linalg_svd svd w = Inr (u0, s, r0)" "column u0 0 = Inr c"
    "np_dot c [0, 1] = Inr d"
    "(u, r) = (if d < 0 then (negated u0, negated r0) else (u0, r0))"
  using assms unfolding decompose_def
  by (auto split: sum.splits prod.splits if_splits)

lemma decompose_oriented:
  assumes "decompose svd w = Inr (u, s, r)"
  shows "\<exists>c d. column u 0 = Inr c \<and> np_dot c [0, 1] = Inr d \<and> 0 \<le> d"
proof -
  from assms obtain u0 r0 c d where h: "column u0 0 = Inr c" "np_dot c [0, 1] = Inr d"
    "(u, r) = (if d < 0 then (negated u0, negated r0) else (u0, r0))"
    by (rule decompose_cases)
  show ?thesis
  proof (cases "d < 0")
    case True
    with h have "u = negated u0" by simp
    with h True show ?thesis
      using column_negated [OF h(1)] np_dot_negated [OF h(2)] by auto
  next
    case False
    with h show ?thesis by auto
  qed
qed

lemma decompose_flip:
  assumes "linalg_svd svd w = Inr (u, s, r)" "column u 0 = Inr c" "np_dot c [0, 1] = Inr d"
  shows "decompose svd w = Inr (if d < 0 then (negated u, s, negated r) else (u, s, r))"
  using assms by (simp add: decompose_def)

lemma decompose_nodes_nth:
  "decompose_nodes svd ws = Inr (us, ss, rs) \<Longrightarrow>
     length us = length ws \<and> length ss = length ws \<and> length rs = length ws \<and>
     (\<forall>q < length ws. decompose svd (ws ! q) = Inr (us ! q, ss ! q, rs ! q))"
proof (induction ws arbitrary: us ss rs)
  case Nil
  then show ?case by simp
next
  case (Cons w ws)
  from Cons.prems obtain u s r us' ss' rs' where
    d: "decompose svd w = Inr (u, s, r)" and
    n: "decompose_nodes svd ws = Inr (us', ss', rs')" and
    e: "us = u # us'" "ss = s # ss'" "rs = r # rs'"
    by (auto split: sum.splits prod.splits)
  from Cons.IH [OF n] d e show ?case
    by (auto simp: nth_Cons split: nat.splits)
qed

lemma cov_nodes_nth:
  "cov_nodes a bias ns = Inr cs \<Longrightarrow>
     length cs = length ns \<and>
     (\<forall>k < length ns. \<exists>f. np_take_node a (int (ns ! k)) = Inr f \<and>
                            np_cov (np_T f) bias = Inr (cs ! k))"
proof (induction ns arbitrary: cs)
  case Nil
  then show ?case by simp
next
  case (Cons i ns)
  from Cons.prems obtain f c cs' where
    f: "np_take_node a (int i) = Inr f" "np_cov (np_T f) bias = Inr c" and
    n: "cov_nodes a bias ns = Inr cs'" and e: "cs = c # cs'"
    by (auto split: sum.splits)
  from Cons.IH [OF n] f e show ?case
    by (auto simp: nth_Cons split: nat.splits)
qed

lemma np_take_col_matrix:
  "column u 0 = Inr c \<Longrightarrow> np_take_col (np_array_matrix u) 0 = Inr (Arr1 c)"
  by (cases u) (auto simp: column_def np_array_matrix_def split: if_splits)

lemma BivariateDataset_init_fields:
  assumes "BivariateDataset_init svd st r = Inr self"
  obtains a w u s r' where "deref st r = Inr a" "np_cov (np_T a) 1 = Inr w"
    "decompose svd w = Inr (u, s, r')"
    "self = \<lparr>y = r, J = shape a ! 0, I = shape a ! 1,
             priv_U = Some (np_array_matrix u), priv_s = Some (Arr1 s),
             priv_R = Some (np_array_matrix r')\<rparr>"
    "1 < length (shape a)"
  using assms unfolding BivariateDataset_init_def init_svd_def cov_def get_cov_def shape_at_def
  by (auto split: sum.splits prod.splits if_splits)

lemma BivariateDataset1D_init_fields:
  assumes "BivariateDataset1D_init svd st r = Inr self"
  obtains a W us ss rs where "deref st r = Inr a" "cov_nodes a 1 [0..<shape a ! 1] = Inr W"
    "decompose_nodes svd W = Inr (us, ss, rs)"
    "self = \<lparr>y = r, J = shape a ! 0, I = shape a ! 2,
             priv_U = Some (np_array_matrices us), priv_s = Some (np_array_vectors ss),
             priv_R = Some (np_array_matrices rs), Q = shape a ! 1\<rparr>"
    "2 < length (shape a)"
  using assms unfolding BivariateDataset1D_init_def BivariateDataset1D_init_svd_def
    BivariateDataset1D_get_cov_def shape_at_def
  by (auto split: sum.splits prod.splits if_splits)


lemma orientation_0D:
  assumes "BivariateDataset_init svd st r = Inr self"
  shows "\<exists>v d. Maxis self = Inr (Arr1 v) \<and> np_dot v [0, 1] = Inr d \<and> 0 \<le> d"
proof -
  from assms obtain a w u s r' where
    "deref st r = Inr a" "np_cov (np_T a) 1 = Inr w" and
    d: "decompose svd w = Inr (u, s, r')" and
    f: "self = \<lparr>y = r, J = shape a ! 0, I = shape a ! 1,
             priv_U = Some (np_array_matrix u), priv_s = Some (Arr1 s),
             priv_R = Some (np_array_matrix r')\<rparr>" and
    "1 < length (shape a)"
    by (rule BivariateDataset_init_fields)
  from decompose_oriented [OF d] obtain c d where
    c: "column u 0 = Inr c" "np_dot c [0, 1] = Inr d" "0 \<le> d" by blast
  from f c show ?thesis
    by (simp add: Maxis_def np_take_col_matrix)
qed

lemma orientation_1D:
  assumes "BivariateDataset1D_init svd st r = Inr self"
  shows "\<exists>us. priv_U self = Some (np_array_matrices us) \<and> length us = Q self \<and>
           (\<forall>q < Q self. \<exists>v d. column (us ! q) 0 = Inr v \<and> np_dot v [0, 1] = Inr d \<and> 0 \<le> d)"
proof -
  from assms obtain a W us ss rs where
    "deref st r = Inr a" and
    c: "cov_nodes a 1 [0..<shape a ! 1] = Inr W" and
    d: "decompose_nodes svd W = Inr (us, ss, rs)" and
    f: "self = \<lparr>y = r, J = shape a ! 0, I = shape a ! 2,
             priv_U = Some (np_array_matrices us), priv_s = Some (np_array_vectors ss),
             priv_R = Some (np_array_matrices rs), Q = shape a ! 1\<rparr>" and
    "2 < length (shape a)"
    by (rule BivariateDataset1D_init_fields)
  from cov_nodes_nth [OF c] have lw: "length W = shape a ! 1" by simp
  from decompose_nodes_nth [OF d] lw have
    lu: "length us = shape a ! 1" and
    n: "\<And>q. q < shape a ! 1 \<Longrightarrow> decompose svd (W ! q) = Inr (us ! q, ss ! q, rs ! q)"
    by simp_all
  have "\<exists>v d. column (us ! q) 0 = Inr v \<and> np_dot v [0, 1] = Inr d \<and> 0 \<le> d"
    if "q < shape a ! 1" for q
    using decompose_oriented [OF n [OF that]] .
  with f lu show ?thesis by (intro exI [of _ us]) simp
qed

lemma negation_0D:
  assumes "deref st r = Inr a" "shape_at a 1 = Inr i" "np_cov (np_T a) 1 = Inr w"
    "linalg_svd svd w = Inr (u, s, r')" "column u 0 = Inr c" "np_dot c [0, 1] = Inr d" "d < 0"
  shows "\<exists>self. BivariateDataset_init svd st r = Inr self \<and>
           priv_U self = Some (np_array_matrix (map (map uminus) u)) \<and>
           priv_s self = Some (Arr1 s) \<and>
           priv_R self = Some (np_array_matrix (map (map uminus) r'))"
proof -
  from assms(4-7) have "decompose svd w = Inr (negated u, s, negated r')"
    by (simp add: decompose_flip)
  with assms(1-3) show ?thesis
    by (auto simp: BivariateDataset_init_def init_svd_def cov_def get_cov_def shape_at_def
        negated_eq split: if_splits)
qed

lemma negation_1D:
  assumes "BivariateDataset1D_init svd st r = Inr self" "BivariateDataset1D_cov st self = Inr W"
    "q < Q self"
    "linalg_svd svd (W ! q) = Inr (u, s, r')" "column u 0 = Inr c" "np_dot c [0, 1] = Inr d" "d < 0"
  shows "\<exists>us ss rs. priv_U self = Some (np_array_matrices us) \<and>
           priv_s self = Some (np_array_vectors ss) \<and>
           priv_R self = Some (np_array_matrices rs) \<and>
           us ! q = map (map uminus) u \<and> ss ! q = s \<and> rs ! q = map (map uminus) r'"
proof -
  from assms(1) obtain a W' us ss rs where
    a: "deref st r = Inr a" and
    c: "cov_nodes a 1 [0..<shape a ! 1] = Inr W'" and
    d: "decompose_nodes svd W' = Inr (us, ss, rs)" and
    f: "self = \<lparr>y = r, J = shape a ! 0, I = shape a ! 2,
             priv_U = Some (np_array_matrices us), priv_s = Some (np_array_vectors ss),
             priv_R = Some (np_array_matrices rs), Q = shape a ! 1\<rparr>" and
    "2 < length (shape a)"
    by (rule BivariateDataset1D_init_fields)
  from assms(2) a c f have w: "W' = W"
    by (simp add: BivariateDataset1D_cov_def BivariateDataset1D_get_cov_def)
  from cov_nodes_nth [OF c] have lw: "length W' = shape a ! 1" by simp
  from assms(3) f have q: "q < shape a ! 1" by simp
  from decompose_nodes_nth [OF d] lw q w have
    "decompose svd (W ! q) = Inr (us ! q, ss ! q, rs ! q)" by simp
  moreover from assms(4-7) have "decompose svd (W ! q) = Inr (negated u, s, negated r')"
    by (simp add: decompose_flip)
  ultimately have "us ! q = negated u" "ss ! q = s" "rs ! q = negated r'" by simp_all
  with f show ?thesis
    by (intro exI [of _ us] exI [of _ ss] exI [of _ rs]) (simp add: negated_eq)
qed

text \<open>
  Claim C1 (orientation invariant). After construction of a \<^verbatim>\<open>BivariateDataset0D\<close>
  the major axis \<^verbatim>\<open>Maxis\<close>, the first column of the stored \<open>U\<close>, has a
  non-negative dot product with \<open>[0, 1]\<close>; after construction of a
  \<^verbatim>\<open>BivariateDataset1D\<close> the same holds for the first column of the stored \<open>U\<close> of
  every node \<open>q\<close>. This holds whatever triple the decomposition routine returns.
  Moreover, when the routine returns a major axis whose dot product with \<open>[0, 1]\<close> is
  negative, the stored \<open>U\<close> and \<open>R\<close> are the returned ones with every entry negated
  and the singular values are stored as returned, for the 0-D sample and for each node
  of the 1-D sample.
\<close>

theorem orientation_invariant:
  "(BivariateDataset_init svd st r = Inr self \<longrightarrow>
      (\<exists>v d. Maxis self = Inr (Arr1 v) \<and> np_dot v [0, 1] = Inr d \<and> 0 \<le> d))
   \<and> (BivariateDataset1D_init svd st rb = Inr selfb \<longrightarrow>
      (\<exists>us. priv_U selfb = Some (np_array_matrices us) \<and> length us = Q selfb \<and>
         (\<forall>q < Q selfb. \<exists>v d. column (us ! q) 0 = Inr v \<and> np_dot v [0, 1] = Inr d \<and> 0 \<le> d)))
   \<and> (deref st r = Inr a \<and> shape_at a 1 = Inr i \<and> np_cov (np_T a) 1 = Inr w \<and>
       linalg_svd svd w = Inr (u, s, r') \<and> column u 0 = Inr c \<and>
       np_dot c [0, 1] = Inr d \<and> d < 0 \<longrightarrow>
      (\<exists>self. BivariateDataset_init svd st r = Inr self \<and>
         priv_U self = Some (np_array_matrix (map (map uminus) u)) \<and>
         priv_s self = Some (Arr1 s) \<and>
         priv_R self = Some (np_array_matrix (map (map uminus) r'))))
   \<and> (BivariateDataset1D_init svd st rb = Inr selfb \<and>
       BivariateDataset1D_cov st selfb = Inr W \<and> q < Q selfb \<and>
       linalg_svd svd (W ! q) = Inr (ub, sb, rb') \<and> column ub 0 = Inr cb \<and>
       np_dot cb [0, 1] = Inr db \<and> db < 0 \<longrightarrow>
      (\<exists>us ss rs. priv_U selfb = Some (np_array_matrices us) \<and>
         priv_s selfb = Some (np_array_vectors ss) \<and>
         priv_R selfb = Some (np_array_matrices rs) \<and>
         us ! q = map (map uminus) ub \<and> ss ! q = sb \<and> rs ! q = map (map uminus) rb'))"
  using orientation_0D [of svd st r self] orientation_1D [of svd st rb selfb]
    negation_0D [of st r a i w svd u s r' c d]
    negation_1D [of svd st rb selfb W q ub sb rb' cb db]
  by blast

theorem orientation_invariant_witness:
  "BivariateDataset_init svd_axis_aligned
      [Arr2 2 [[0, - 1], [0, 1]], Arr3 1 2 [[[0, - 1]], [[0, 1]]]] (Base 0) =
     Inr \<lparr>y = Base 0, J = 2, I = 2, priv_U = Some (Arr2 2 [[0, - 1], [1, 0]]),
          priv_s = Some (Arr1 [1, 0]), priv_R = Some (Arr2 2 [[0, 1], [- 1, 0]])\<rparr>
   \<and> (\<exists>v d. Maxis \<lparr>y = Base 0, J = 2, I = 2, priv_U = Some (Arr2 2 [[0, - 1], [1, 0]]),
          priv_s = Some (Arr1 [1, 0]), priv_R = Some (Arr2 2 [[0, 1], [- 1, 0]])\<rparr>
        = Inr (Arr1 v) \<and> np_dot v [0, 1] = Inr d \<and> 0 \<le> d)
   \<and> BivariateDataset1D_init svd_axis_aligned
      [Arr2 2 [[0, - 1], [0, 1]], Arr3 1 2 [[[0, - 1]], [[0, 1]]]] (Base 1) =
     Inr \<lparr>y = Base 1, J = 2, I = 2, priv_U = Some (Arr3 2 2 [[[0, - 1], [1, 0]]]),
          priv_s = Some (Arr2 2 [[1, 0]]), priv_R = Some (Arr3 2 2 [[[0, 1], [- 1, 0]]]),
          Q = 1\<rparr>
   \<and> (\<exists>us. Some (Arr3 2 2 [[[0, - 1], [1, 0]]]) = Some (np_array_matrices us) \<and>
         length us = 1 \<and>
         (\<exists>v d. column (us ! 0) 0 = Inr v \<and> np_dot v [0, 1] = Inr d \<and> 0 \<le> d))
   \<and> linalg_svd svd_axis_aligned (Cov2 [[Fin 0, Fin 0], [Fin 0, Fin 1]]) =
        Inr ([[0, 1], [- 1, 0]], [1, 0], [[0, - 1], [1, 0]])
   \<and> column [[0, 1], [- 1, 0]] 0 = Inr [0, - 1]
   \<and> np_dot [0, - 1] [0, 1] = Inr (- 1)
   \<and> (\<exists>self. BivariateDataset_init svd_axis_aligned
         [Arr2 2 [[0, - 1], [0, 1]], Arr3 1 2 [[[0, - 1]], [[0, 1]]]] (Base 0) = Inr self \<and>
         priv_U self = Some (np_array_matrix (map (map uminus) [[0, 1], [- 1, 0]])) \<and>
         priv_s self = Some (Arr1 [1, 0]) \<and>
         priv_R self = Some (np_array_matrix (map (map uminus) [[0, - 1], [1, 0]])))
   \<and> (\<exists>us ss rs. Some (Arr3 2 2 [[[0, - 1], [1, 0]]]) = Some (np_array_matrices us) \<and>
         Some (Arr2 2 [[1, 0]]) = Some (np_array_vectors ss) \<and>
         Some (Arr3 2 2 [[[0, 1], [- 1, 0]]]) = Some (np_array_matrices rs) \<and>
         us ! 0 = map (map uminus) [[0, 1], [- 1, 0]] \<and> ss ! 0 = [1, 0] \<and>
         rs ! 0 = map (map uminus) [[0, - 1], [1, 0]])"
proof -
  let ?st = "[Arr2 2 [[0, - 1], [0, 1]], Arr3 1 2 [[[0, - 1]], [[0, 1]]]] :: store"
  let ?o0 = "\<lparr>y = Base 0, J = 2, I = 2, priv_U = Some (Arr2 2 [[0, - 1], [1, 0]]),
          priv_s = Some (Arr1 [1, 0]), priv_R = Some (Arr2 2 [[0, 1], [- 1, 0]])\<rparr>"
  let ?o1 = "\<lparr>y = Base 1, J = 2, I = 2, priv_U = Some (Arr3 2 2 [[[0, - 1], [1, 0]]]),
          priv_s = Some (Arr2 2 [[1, 0]]), priv_R = Some (Arr3 2 2 [[[0, 1], [- 1, 0]]]),
          Q = 1\<rparr>"
  let ?w = "Cov2 [[Fin 0, Fin 0], [Fin 0, Fin 1]]"
  have p1: "BivariateDataset_init svd_axis_aligned ?st (Base 0) = Inr ?o0"
    by (simp add: evals)
  have p2: "BivariateDataset1D_init svd_axis_aligned ?st (Base 1) = Inr ?o1"
    by (simp add: evals)
  have p3: "deref ?st (Base 0) = Inr (Arr2 2 [[0, - 1], [0, 1]]) \<and>
      shape_at (Arr2 2 [[0, - 1], [0, 1 :: real]]) 1 = Inr 2 \<and>
      np_cov (np_T (Arr2 2 [[0, - 1], [0, 1]])) 1 = Inr ?w"
    by (simp add: evals)
  have p4: "linalg_svd svd_axis_aligned ?w = Inr ([[0, 1], [- 1, 0]], [1, 0], [[0, - 1], [1, 0]])"
    "column [[0, 1], [- 1, 0]] 0 = Inr [0, - 1]"
    "np_dot [0, - 1] [0, 1] = Inr (- 1)" "(- 1 :: real) < 0"
    by (simp_all add: evals)
  have p5: "BivariateDataset1D_cov ?st ?o1 = Inr [?w]" "0 < Q ?o1" "[?w] ! 0 = ?w"
    by (simp_all add: evals)
  note t = orientation_invariant [where svd = svd_axis_aligned and st = ?st and r = "Base 0"
      and self = ?o0 and rb = "Base 1" and selfb = ?o1
      and a = "Arr2 2 [[0, - 1], [0, 1]]" and i = 2 and w = ?w
      and u = "[[0, 1], [- 1, 0]]" and s = "[1, 0]" and r' = "[[0, - 1], [1, 0]]"
      and c = "[0, - 1]" and d = "- 1" and W = "[?w]" and q = 0
      and ub = "[[0, 1], [- 1, 0]]" and sb = "[1, 0]" and rb' = "[[0, - 1], [1, 0]]"
      and cb = "[0, - 1]" and db = "- 1"]
  have p6: "linalg_svd svd_axis_aligned ([?w] ! 0) =
      Inr ([[0, 1], [- 1, 0]], [1, 0], [[0, - 1], [1, 0]])"
    using p4(1) by simp
  have c1: "\<exists>v d. Maxis ?o0 = Inr (Arr1 v) \<and> np_dot v [0, 1] = Inr d \<and> 0 \<le> d"
    by (rule t [THEN conjunct1, THEN mp]) (rule p1)
  have "\<exists>us. priv_U ?o1 = Some (np_array_matrices us) \<and> length us = Q ?o1 \<and>
         (\<forall>q < Q ?o1. \<exists>v d. column (us ! q) 0 = Inr v \<and> np_dot v [0, 1] = Inr d \<and> 0 \<le> d)"
    by (rule t [THEN conjunct2, THEN conjunct1, THEN mp]) (rule p2)
  then obtain us where "priv_U ?o1 = Some (np_array_matrices us)" "length us = Q ?o1"
    "\<forall>q < Q ?o1. \<exists>v d. column (us ! q) 0 = Inr v \<and> np_dot v [0, 1] = Inr d \<and> 0 \<le> d"
    by blast
  with p5(2) have c2: "\<exists>us. Some (Arr3 2 2 [[[0, - 1], [1, 0]]]) = Some (np_array_matrices us) \<and>
         length us = 1 \<and>
         (\<exists>v d. column (us ! 0) 0 = Inr v \<and> np_dot v [0, 1] = Inr d \<and> 0 \<le> d)"
    by (intro exI [of _ us]) simp
  have c3: "\<exists>self. BivariateDataset_init svd_axis_aligned ?st (Base 0) = Inr self \<and>
         priv_U self = Some (np_array_matrix (map (map uminus) [[0, 1], [- 1, 0]])) \<and>
         priv_s self = Some (Arr1 [1, 0]) \<and>
         priv_R self = Some (np_array_matrix (map (map uminus) [[0, - 1], [1, 0]]))"
    by (rule t [THEN conjunct2, THEN conjunct2, THEN conjunct1, THEN mp])
      (intro conjI p3 [THEN conjunct1] p3 [THEN conjunct2, THEN conjunct1]
        p3 [THEN conjunct2, THEN conjunct2] p4)
  have "\<exists>us ss rs. priv_U ?o1 = Some (np_array_matrices us) \<and>
         priv_s ?o1 = Some (np_array_vectors ss) \<and>
         priv_R ?o1 = Some (np_array_matrices rs) \<and>
         us ! 0 = map (map uminus) [[0, 1], [- 1, 0]] \<and> ss ! 0 = [1, 0] \<and>
         rs ! 0 = map (map uminus) [[0, - 1], [1, 0]]"
    by (rule t [THEN conjunct2, THEN conjunct2, THEN conjunct2, THEN mp])
      (intro conjI p2 p5(1) p5(2) p6 p4(2) p4(3) p4(4))
  then have c4: "\<exists>us ss rs. Some (Arr3 2 2 [[[0, - 1], [1, 0]]]) = Some (np_array_matrices us) \<and>
         Some (Arr2 2 [[1, 0]]) = Some (np_array_vectors ss) \<and>
         Some (Arr3 2 2 [[[0, 1], [- 1, 0]]]) = Some (np_array_matrices rs) \<and>
         us ! 0 = map (map uminus) [[0, 1], [- 1, 0]] \<and> ss ! 0 = [1, 0] \<and>
         rs ! 0 = map (map uminus) [[0, - 1], [1, 0]]"
    by simp
  from p1 c1 p2 c2 p4(1-3) c3 c4 show ?thesis
    by (intro conjI)
qed

text \<open>
  The invariant above is about the first column of each stored \<open>U\<close>. The accessor
  \<^verbatim>\<open>Maxis\<close> is inherited by \<^verbatim>\<open>BivariateDataset1D\<close> unchanged: on the stacked
  array of shape \<open>(Q, 2, 2)\<close> the index \<^verbatim>\<open>_U[:,0]\<close> selects the first row of
  every node's \<open>U\<close>, which need not be its first column.
\<close>

lemma Maxis_1D_first_rows:
  assumes "priv_U self = Some (np_array_matrices (m # ms))" "m \<noteq> []"
  shows "Maxis self = Inr (Arr2 (length (hd m)) (map (\<lambda>u. u ! 0) (m # ms)))"
  using assms by (cases m) (simp_all add: Maxis_def np_array_matrices_def)

lemma Maxis_1D_example:
  "BivariateDataset1D_init svd_axis_aligned [Arr3 1 2 [[[0, - 1]], [[0, 1]]]] (Base 0) =
     Inr \<lparr>y = Base 0, J = 2, I = 2, priv_U = Some (Arr3 2 2 [[[0, - 1], [1, 0]]]),
          priv_s = Some (Arr2 2 [[1, 0]]), priv_R = Some (Arr3 2 2 [[[0, 1], [- 1, 0]]]),
          Q = 1\<rparr>
   \<and> Maxis \<lparr>y = Base 0, J = 2, I = 2, priv_U = Some (Arr3 2 2 [[[0, - 1], [1, 0]]]),
          priv_s = Some (Arr2 2 [[1, 0]]), priv_R = Some (Arr3 2 2 [[[0, 1], [- 1, 0]]]),
          Q = 1\<rparr> = Inr (Arr2 2 [[0, - 1]])
   \<and> column [[0, - 1], [1, 0]] 0 = Inr [0, 1]
   \<and> np_dot [0, - 1] [0, 1] = Inr (- 1)"
  by (simp add: evals)

subsection \<open>The component count\<close>

text \<open>
  Claim C10. For a bivariate sample of either class, \<^verbatim>\<open>ncomponents\<close> returns the
  number of observations \<open>J\<close>, the first dimension of the array, and so agrees with
  \<^verbatim>\<open>nobservations\<close> and \<^verbatim>\<open>samplesize\<close>; the number of components, the last
  dimension, is stored in \<open>I\<close>. In particular a sample whose number of observations
  is not 2 has \<^verbatim>\<open>ncomponents\<close> different from 2.
\<close>

theorem ncomponents_counts_observations:
  "(BivariateDataset_init svd st r = Inr self \<and> deref st r = Inr a \<longrightarrow>
      ncomponents self = shape a ! 0 \<and> ncomponents self = nobservations self \<and>
      ncomponents self = samplesize self \<and> I self = shape a ! 1 \<and>
      (shape a ! 0 \<noteq> 2 \<longrightarrow> ncomponents self \<noteq> 2))
   \<and> (BivariateDataset1D_init svd st rb = Inr selfb \<and> deref st rb = Inr b \<longrightarrow>
      ncomponents selfb = shape b ! 0 \<and> ncomponents selfb = nobservations selfb \<and>
      ncomponents selfb = samplesize selfb \<and> I selfb = shape b ! 2 \<and>
      (shape b ! 0 \<noteq> 2 \<longrightarrow> ncomponents selfb \<noteq> 2))"
proof (intro conjI impI)
  assume h: "BivariateDataset_init svd st r = Inr self \<and> deref st r = Inr a"
  then obtain a' w u s r' where
    "deref st r = Inr a'" "np_cov (np_T a') 1 = Inr w" "decompose svd w = Inr (u, s, r')" and
    f: "self = \<lparr>y = r, J = shape a' ! 0, I = shape a' ! 1,
             priv_U = Some (np_array_matrix u), priv_s = Some (Arr1 s),
             priv_R = Some (np_array_matrix r')\<rparr>" and
    "1 < length (shape a')"
    by (elim conjE BivariateDataset_init_fields)
  with h have e: "a' = a" by simp
  from f e show "ncomponents self = shape a ! 0" "ncomponents self = nobservations self"
    "ncomponents self = samplesize self" "I self = shape a ! 1"
    by (simp_all add: ncomponents_def nobservations_def samplesize_def)
  assume "shape a ! 0 \<noteq> 2"
  with f e show "ncomponents self \<noteq> 2" by (simp add: ncomponents_def)
next
  assume h: "BivariateDataset1D_init svd st rb = Inr selfb \<and> deref st rb = Inr b"
  then obtain a' W us ss rs where
    "deref st rb = Inr a'" "cov_nodes a' 1 [0..<shape a' ! 1] = Inr W"
    "decompose_nodes svd W = Inr (us, ss, rs)" and
    f: "selfb = \<lparr>y = rb, J = shape a' ! 0, I = shape a' ! 2,
             priv_U = Some (np_array_matrices us), priv_s = Some (np_array_vectors ss),
             priv_R = Some (np_array_matrices rs), Q = shape a' ! 1\<rparr>" and
    "2 < length (shape a')"
    by (elim conjE BivariateDataset1D_init_fields)
  with h have e: "a' = b" by simp
  from f e show "ncomponents selfb = shape b ! 0" "ncomponents selfb = nobservations selfb"
    "ncomponents selfb = samplesize selfb" "I selfb = shape b ! 2"
    by (simp_all add: ncomponents_def nobservations_def samplesize_def)
  assume "shape b ! 0 \<noteq> 2"
  with f e show "ncomponents selfb \<noteq> 2" by (simp add: ncomponents_def)
qed

theorem ncomponents_counts_observations_witness:
  "BivariateDataset_init svd_axis_aligned
      [Arr2 2 [[1, 0], [- 1, 0], [0, 0]], Arr3 1 2 [[[1, 0]], [[- 1, 0]], [[0, 0]]]] (Base 0) =
     Inr \<lparr>y = Base 0, J = 3, I = 2, priv_U = Some (Arr2 2 [[1, 0], [0, 1]]),
          priv_s = Some (Arr1 [2 / 3, 0]), priv_R = Some (Arr2 2 [[1, 0], [0, 1]])\<rparr>
   \<and> ncomponents \<lparr>y = Base 0, J = 3, I = 2, priv_U = Some (Arr2 2 [[1, 0], [0, 1]]),
          priv_s = Some (Arr1 [2 / 3, 0]), priv_R = Some (Arr2 2 [[1, 0], [0, 1]])\<rparr> =
       shape (Arr2 2 [[1, 0], [- 1, 0], [0, 0 :: real]]) ! 0
   \<and> I \<lparr>y = Base 0, J = 3, I = 2, priv_U = Some (Arr2 2 [[1, 0], [0, 1]]),
          priv_s = Some (Arr1 [2 / 3, 0]), priv_R = Some (Arr2 2 [[1, 0], [0, 1]])\<rparr> =
       shape (Arr2 2 [[1, 0], [- 1, 0], [0, 0 :: real]]) ! 1
   \<and> ncomponents \<lparr>y = Base 0, J = 3, I = 2, priv_U = Some (Arr2 2 [[1, 0], [0, 1]]),
          priv_s = Some (Arr1 [2 / 3, 0]), priv_R = Some (Arr2 2 [[1, 0], [0, 1]])\<rparr> \<noteq> 2
   \<and> BivariateDataset1D_init svd_axis_aligned
      [Arr2 2 [[1, 0], [- 1, 0], [0, 0]], Arr3 1 2 [[[1, 0]], [[- 1, 0]], [[0, 0]]]] (Base 1) =
     Inr \<lparr>y = Base 1, J = 3, I = 2, priv_U = Some (Arr3 2 2 [[[1, 0], [0, 1]]]),
          priv_s = Some (Arr2 2 [[2 / 3, 0]]), priv_R = Some (Arr3 2 2 [[[1, 0], [0, 1]]]),
          Q = 1\<rparr>
   \<and> ncomponents \<lparr>y = Base 1, J = 3, I = 2, priv_U = Some (Arr3 2 2 [[[1, 0], [0, 1]]]),
          priv_s = Some (Arr2 2 [[2 / 3, 0]]), priv_R = Some (Arr3 2 2 [[[1, 0], [0, 1]]]),
          Q = 1\<rparr> = shape (Arr3 1 2 [[[1, 0]], [[- 1, 0]], [[0, 0 :: real]]]) ! 0
   \<and> ncomponents \<lparr>y = Base 1, J = 3, I = 2, priv_U = Some (Arr3 2 2 [[[1, 0], [0, 1]]]),
          priv_s = Some (Arr2 2 [[2 / 3, 0]]), priv_R = Some (Arr3 2 2 [[[1, 0], [0, 1]]]),
          Q = 1\<rparr> \<noteq> 2"
proof -
  let ?a = "Arr2 2 [[1, 0], [- 1, 0], [0, 0]] :: real ndarray"
  let ?b = "Arr3 1 2 [[[1, 0]], [[- 1, 0]], [[0, 0]]] :: real ndarray"
  let ?st = "[?a, ?b]"
  let ?o0 = "\<lparr>y = Base 0, J = 3, I = 2, priv_U = Some (Arr2 2 [[1, 0], [0, 1]]),
          priv_s = Some (Arr1 [2 / 3, 0]), priv_R = Some (Arr2 2 [[1, 0], [0, 1]])\<rparr>"
  let ?o1 = "\<lparr>y = Base 1, J = 3, I = 2, priv_U = Some (Arr3 2 2 [[[1, 0], [0, 1]]]),
          priv_s = Some (Arr2 2 [[2 / 3, 0]]), priv_R = Some (Arr3 2 2 [[[1, 0], [0, 1]]]),
          Q = 1\<rparr>"
  have p1: "BivariateDataset_init svd_axis_aligned ?st (Base 0) = Inr ?o0"
    by (simp add: evals)
  have p2: "deref ?st (Base 0) = Inr ?a" by simp
  have p3: "BivariateDataset1D_init svd_axis_aligned ?st (Base 1) = Inr ?o1"
    by (simp add: evals)
  have p4: "deref ?st (Base 1) = Inr ?b" by simp
  have n: "shape ?a ! 0 \<noteq> 2" "shape ?b ! 0 \<noteq> 2" by simp_all
  note t = ncomponents_counts_observations [where svd = svd_axis_aligned and st = ?st
      and r = "Base 0" and self = ?o0 and a = ?a and rb = "Base 1" and selfb = ?o1 and b = ?b]
  from t [THEN conjunct1, THEN mp, OF conjI [OF p1 p2]] n(1)
  have c1: "ncomponents ?o0 = shape ?a ! 0" "I ?o0 = shape ?a ! 1" "ncomponents ?o0 \<noteq> 2"
    by blast+
  from t [THEN conjunct2, THEN mp, OF conjI [OF p3 p4]] n(2)
  have c2: "ncomponents ?o1 = shape ?b ! 0" "ncomponents ?o1 \<noteq> 2"
    by blast+
  from p1 c1 p3 c2 show ?thesis by (intro conjI)
qed

subsection \<open>Node coordinates\<close>

text \<open>
  Claim C7, as amended. \<^verbatim>\<open>_getx\<close> returns the sequence \<open>0, \<dots>, Q - 1\<close> when no
  coordinates are supplied, and returns supplied coordinates unchanged whatever their
  length: it never fails.
\<close>

theorem getx_generates_or_echoes:
  "getx self None = Inr (map real [0..<UnivariateDataset1D.Q self]) \<and> getx self (Some xs) = Inr xs"
  by (simp add: getx_def)

text \<open>
  The claim as stated asks for a \<open>DimensionMismatchError\<close> when the length of the
  supplied coordinates differs from the node count. Two coordinates supplied to a
  sample with three nodes are returned as they are.
\<close>

theorem getx_mismatch_counterexample:
  "UnivariateDataset1D_init [Arr2 3 [[1, 2, 3], [4, 5, 6]]] (Base 0) =
     Inr \<lparr>y = Base 0, J = 2, UnivariateDataset1D.Q = 3\<rparr>
   \<and> length [0, 1 :: real] \<noteq> UnivariateDataset1D.Q \<lparr>y = Base 0, J = 2, UnivariateDataset1D.Q = 3\<rparr>
   \<and> getx \<lparr>y = Base 0, J = 2, UnivariateDataset1D.Q = 3\<rparr> (Some [0, 1]) = Inr [0, 1]
   \<and> getx \<lparr>y = Base 0, J = 2, UnivariateDataset1D.Q = 3\<rparr> (Some [0, 1]) \<noteq> Inl DimensionMismatchError"
  by (simp add: getx_def UnivariateDataset1D_init_def shape_at_def)

subsection \<open>Construction from an array of the wrong shape\<close>

lemma decompose_three_exact:
  assumes "length c = 3"
    "\<forall>m u s r'. svd m = Some (u, s, r') \<longrightarrow>
        length u = length m \<and> (\<forall>row \<in> set u. length row = length m)"
  shows "decompose svd (Cov2 c) =
     (if NaN \<in> set (concat c) \<or> svd (map (map fin_val) c) = None
      then Inl LinAlgError else Inl ValueError)"
proof (cases "NaN \<in> set (concat c) \<or> svd (map (map fin_val) c) = None")
  case True
  then have "linalg_svd svd (Cov2 c) = Inl LinAlgError" by auto
  with True show ?thesis by (simp add: decompose_def)
next
  case False
  then obtain u s r' where sv: "svd (map (map fin_val) c) = Some (u, s, r')"
    by (cases "svd (map (map fin_val) c)") auto
  with False have l: "linalg_svd svd (Cov2 c) = Inr (u, s, r')" by simp
  from sv assms have lu: "length u = 3" "\<forall>row \<in> set u. length row = 3"
    by fastforce+
  then have "column u 0 = Inr (map (\<lambda>r. r ! 0) u)"
    by (auto simp: column_def)
  moreover from lu have "np_dot (map (\<lambda>r. r ! 0) u) [0, 1] = Inl ValueError"
    by (simp add: np_dot_def)
  ultimately have "decompose svd (Cov2 c) = Inl ValueError"
    using l by (simp add: decompose_def)
  with False show ?thesis by simp
qed

lemma svd_axis_aligned_square:
  "\<forall>m u s r'. svd_axis_aligned m = Some (u, s, r') \<longrightarrow>
     length u = length m \<and> (\<forall>row \<in> set u. length row = length m)"
  by (auto simp: svd_axis_aligned_def identity_matrix_def split: if_splits)

lemma svd_axis_aligned_Some: "svd_axis_aligned m \<noteq> None"
  by (simp add: svd_axis_aligned_def)

text \<open>
  Claim C2, as amended. Constructing a \<^verbatim>\<open>UnivariateDataset1D\<close> from a rank-1 array
  raises \<open>IndexError\<close> (the shape tuple has no second entry). Constructing a
  \<^verbatim>\<open>BivariateDataset0D\<close> from a rank-2 array with 3 columns raises \<open>ValueError\<close>
  (the dot product of a column of length 3 with \<open>[0, 1]\<close>) when there is at least one
  observation and the decomposition of the 3 by 3 covariance returns, and raises
  \<open>LinAlgError\<close> when there is no observation or the decomposition fails, provided
  the decomposition routine returns a square \<open>U\<close> of the size of its argument. In
  every case no object is returned.
\<close>

theorem construction_rejects_wrong_shape:
  "(deref st r = Inr (Arr1 xs) \<longrightarrow> UnivariateDataset1D_init st r = Inl IndexError)
   \<and> (deref st rb = Inr (Arr2 3 rows) \<and>
       (\<forall>m u s r'. svd m = Some (u, s, r') \<longrightarrow>
          length u = length m \<and> (\<forall>row \<in> set u. length row = length m)) \<longrightarrow>
      (\<exists>c. np_cov (np_T (Arr2 3 rows)) 1 = Inr (Cov2 c) \<and>
           BivariateDataset_init svd st rb =
             (if rows = [] \<or> svd (map (map fin_val) c) = None
              then Inl LinAlgError else Inl ValueError)))"
proof (intro conjI impI)
  assume "deref st r = Inr (Arr1 xs)"
  then show "UnivariateDataset1D_init st r = Inl IndexError"
    by (simp add: UnivariateDataset1D_init_def shape_at_def)
next
  assume h: "deref st rb = Inr (Arr2 3 rows) \<and>
       (\<forall>m u s r'. svd m = Some (u, s, r') \<longrightarrow>
          length u = length m \<and> (\<forall>row \<in> set u. length row = length m))"
  define c where "c = map (\<lambda>v. map (\<lambda>w. cov_entry 1 (length rows) v w)
      (map (\<lambda>i. map (\<lambda>r. r ! i) rows) [0..<3])) (map (\<lambda>i. map (\<lambda>r. r ! i) rows) [0..<3])"
  have lc: "length c = 3" by (simp add: c_def)
  have nan: "(NaN \<in> set (concat c)) = (rows = [])"
    by (auto simp: c_def cov_entry_def cov_ddof_def upt_rec)
  have cv: "np_cov (np_T (Arr2 3 rows)) 1 = Inr (Cov2 c)"
    by (simp add: cov_matrix_def c_def Let_def)
  with h have "BivariateDataset_init svd st rb =
      (case decompose svd (Cov2 c) of Inl e \<Rightarrow> Inl e
       | Inr (u, s, r') \<Rightarrow> Inr \<lparr>y = rb, J = length rows, I = 3,
             priv_U = Some (np_array_matrix u), priv_s = Some (Arr1 s),
             priv_R = Some (np_array_matrix r')\<rparr>)"
    by (simp add: BivariateDataset_init_def init_svd_def cov_def get_cov_def shape_at_def
        split: sum.splits prod.splits)
  with decompose_three_exact [OF lc, of svd] h nan
  have "BivariateDataset_init svd st rb =
             (if rows = [] \<or> svd (map (map fin_val) c) = None
              then Inl LinAlgError else Inl ValueError)"
    by simp
  with cv show "\<exists>c. np_cov (np_T (Arr2 3 rows)) 1 = Inr (Cov2 c) \<and>
           BivariateDataset_init svd st rb =
             (if rows = [] \<or> svd (map (map fin_val) c) = None
              then Inl LinAlgError else Inl ValueError)"
    by blast
qed

theorem construction_rejects_wrong_shape_witness:
  "deref [Arr1 [1, 2, 3], Arr2 3 [[1, 0, 0], [- 1, 0, 0]], Arr2 3 []] (Base 0) =
     Inr (Arr1 [1, 2, 3])
   \<and> UnivariateDataset1D_init [Arr1 [1, 2, 3], Arr2 3 [[1, 0, 0], [- 1, 0, 0]], Arr2 3 []]
       (Base 0) = Inl IndexError
   \<and> deref [Arr1 [1, 2, 3], Arr2 3 [[1, 0, 0], [- 1, 0, 0]], Arr2 3 []] (Base 1) =
       Inr (Arr2 3 [[1, 0, 0], [- 1, 0, 0]])
   \<and> BivariateDataset_init svd_axis_aligned
         [Arr1 [1, 2, 3], Arr2 3 [[1, 0, 0], [- 1, 0, 0]], Arr2 3 []] (Base 1) = Inl ValueError
   \<and> deref [Arr1 [1, 2, 3], Arr2 3 [[1, 0, 0], [- 1, 0, 0]], Arr2 3 []] (Base 2) =
       Inr (Arr2 3 [])
   \<and> BivariateDataset_init svd_axis_aligned
         [Arr1 [1, 2, 3], Arr2 3 [[1, 0, 0], [- 1, 0, 0]], Arr2 3 []] (Base 2) = Inl LinAlgError"
proof -
  let ?st = "[Arr1 [1, 2, 3], Arr2 3 [[1, 0, 0], [- 1, 0, 0]], Arr2 3 []] :: store"
  have p1: "deref ?st (Base 0) = Inr (Arr1 [1, 2, 3])" by simp
  have p2: "deref ?st (Base 1) = Inr (Arr2 3 [[1, 0, 0], [- 1, 0, 0]])" by simp
  have p4: "deref ?st (Base 2) = Inr (Arr2 3 [])" by simp
  note p3 = svd_axis_aligned_square
  note ta = construction_rejects_wrong_shape [where st = ?st and svd = svd_axis_aligned
      and r = "Base 0" and xs = "[1, 2, 3]"]
  note tb = construction_rejects_wrong_shape [where st = ?st and svd = svd_axis_aligned
      and rb = "Base 1" and rows = "[[1, 0, 0], [- 1, 0, 0]]"]
  note tc = construction_rejects_wrong_shape [where st = ?st and svd = svd_axis_aligned
      and rb = "Base 2" and rows = "[]"]
  have c1: "UnivariateDataset1D_init ?st (Base 0) = Inl IndexError"
    by (rule ta [THEN conjunct1, THEN mp]) (rule p1)
  have "\<exists>c. np_cov (np_T (Arr2 3 [[1, 0, 0], [- 1, 0, 0]])) 1 = Inr (Cov2 c) \<and>
       BivariateDataset_init svd_axis_aligned ?st (Base 1) =
         (if [[1, 0, 0], [- 1, 0, 0 :: real]] = [] \<or> svd_axis_aligned (map (map fin_val) c) = None
          then Inl LinAlgError else Inl ValueError)"
    by (rule tb [THEN conjunct2, THEN mp]) (intro conjI p2 p3)
  then have c2: "BivariateDataset_init svd_axis_aligned ?st (Base 1) = Inl ValueError"
    by (auto simp: svd_axis_aligned_Some)
  have "\<exists>c. np_cov (np_T (Arr2 3 [])) 1 = Inr (Cov2 c) \<and>
       BivariateDataset_init svd_axis_aligned ?st (Base 2) =
         (if ([] :: real list list) = [] \<or> svd_axis_aligned (map (map fin_val) c) = None
          then Inl LinAlgError else Inl ValueError)"
    by (rule tc [THEN conjunct2, THEN mp]) (intro conjI p4 p3)
  then have c3: "BivariateDataset_init svd_axis_aligned ?st (Base 2) = Inl LinAlgError"
    by auto
  from p1 c1 p2 c2 p4 c3 show ?thesis by (intro conjI)
qed

text \<open>
  The claim as stated asks for a \<open>ShapeError\<close>; the exceptions raised are
  \<open>IndexError\<close> and \<open>ValueError\<close>.
\<close>

theorem shape_error_counterexample:
  "UnivariateDataset1D_init [Arr1 [1, 2, 3]] (Base 0) = Inl IndexError
   \<and> UnivariateDataset1D_init [Arr1 [1, 2, 3]] (Base 0) \<noteq> Inl ShapeError
   \<and> BivariateDataset_init svd_axis_aligned [Arr2 3 [[1, 0, 0], [- 1, 0, 0]]] (Base 0) =
       Inl ValueError
   \<and> BivariateDataset_init svd_axis_aligned [Arr2 3 [[1, 0, 0], [- 1, 0, 0]]] (Base 0) \<noteq>
       Inl ShapeError"
  by (simp add: UnivariateDataset1D_init_def evals)

subsection \<open>Frames of a functional sample\<close>

lemma np_take_node_rank2:
  "np_take_node a k = Inr v \<Longrightarrow> length (shape v) = 2"
  by (cases a) (auto split: if_splits)

lemma get_frame_valid:
  assumes "BivariateDataset1D_init svd st r = Inr self"
    "- int (Q self) \<le> k" "k < int (Q self)"
  shows "\<exists>f W. get_frame svd st self k = Inr f \<and> BivariateDataset1D_cov st self = Inr W \<and>
           length W = Q self \<and>
           cov st f = Inr (W ! nat (if k < 0 then k + int (Q self) else k)) \<and>
           y f = NodeView (base r) k \<and> J f = J self \<and> I f = I self"
proof -
  from assms(1) obtain a W us ss rs where
    a: "deref st r = Inr a" and
    c: "cov_nodes a 1 [0..<shape a ! 1] = Inr W" and
    d: "decompose_nodes svd W = Inr (us, ss, rs)" and
    f: "self = \<lparr>y = r, J = shape a ! 0, I = shape a ! 2,
             priv_U = Some (np_array_matrices us), priv_s = Some (np_array_vectors ss),
             priv_R = Some (np_array_matrices rs), Q = shape a ! 1\<rparr>" and
    l: "2 < length (shape a)"
    by (rule BivariateDataset1D_init_fields)
  from l obtain q n blocks where a3: "a = Arr3 q n blocks"
    by (cases a) auto
  from a l obtain ad where r: "r = Base ad"
    by (cases r) (auto dest: np_take_node_rank2)
  from a r have sa: "st ! ad = a" by simp
  define j where "j = nat (if k < 0 then k + int q else k)"
  from assms(2,3) f a3 have kq: "- int q \<le> k" "k < int q" by simp_all
  then have j: "j < q" by (auto simp: j_def)
  define v where "v = Arr2 n (map (\<lambda>b. b ! j) blocks)"
  from kq have tk: "np_take_node a k = Inr v" by (simp add: a3 v_def j_def)
  from cov_nodes_nth [OF c] a3 have lw: "length W = q" by simp
  have "\<forall>i<length [0..<shape a ! 1]. \<exists>g. np_take_node a (int ([0..<shape a ! 1] ! i)) = Inr g \<and>
      np_cov (np_T g) 1 = Inr (W ! i)"
    using cov_nodes_nth [OF c] by (rule conjunct2)
  moreover from j a3 have "j < length [0..<shape a ! 1]" by simp
  ultimately have "\<exists>g. np_take_node a (int ([0..<shape a ! 1] ! j)) = Inr g \<and>
      np_cov (np_T g) 1 = Inr (W ! j)"
    by blast
  moreover from j a3 have "[0..<shape a ! 1] ! j = j" by simp
  moreover from j have "np_take_node a (int j) = Inr v"
    by (simp add: a3 v_def)
  ultimately have cv: "np_cov (np_T v) 1 = Inr (W ! j)" by simp
  from decompose_nodes_nth [OF d] lw j have
    dk: "decompose svd (W ! j) = Inr (us ! j, ss ! j, rs ! j)" by simp
  define fr where "fr = \<lparr>y = NodeView ad k, J = length blocks, I = n,
      priv_U = Some (np_array_matrix (us ! j)), priv_s = Some (Arr1 (ss ! j)),
      priv_R = Some (np_array_matrix (rs ! j))\<rparr>"
  from sa tk cv dk have "BivariateDataset_init svd st (NodeView ad k) = Inr fr"
    by (simp add: BivariateDataset_init_def init_svd_def cov_def get_cov_def shape_at_def
        v_def fr_def)
  with a r f tk have g: "get_frame svd st self k = Inr fr"
    by (simp add: get_frame_def)
  from a c f have w: "BivariateDataset1D_cov st self = Inr W"
    by (simp add: BivariateDataset1D_cov_def BivariateDataset1D_get_cov_def)
  from sa tk cv have "cov st fr = Inr (W ! j)"
    by (simp add: cov_def get_cov_def fr_def)
  with g w lw f a3 r show ?thesis by (simp add: j_def fr_def)
qed

lemma get_frame_invalid:
  assumes "BivariateDataset1D_init svd st r = Inr self"
    "\<not> (- int (Q self) \<le> k \<and> k < int (Q self))"
  shows "get_frame svd st self k = Inl IndexError"
proof -
  from assms(1) obtain a W us ss rs where
    a: "deref st r = Inr a" and
    "cov_nodes a 1 [0..<shape a ! 1] = Inr W"
    "decompose_nodes svd W = Inr (us, ss, rs)" and
    f: "self = \<lparr>y = r, J = shape a ! 0, I = shape a ! 2,
             priv_U = Some (np_array_matrices us), priv_s = Some (np_array_vectors ss),
             priv_R = Some (np_array_matrices rs), Q = shape a ! 1\<rparr>" and
    l: "2 < length (shape a)"
    by (rule BivariateDataset1D_init_fields)
  from l obtain q n blocks where a3: "a = Arr3 q n blocks"
    by (cases a) auto
  from assms(2) f a3 have "np_take_node a k = Inl IndexError" by auto
  with a f show ?thesis by (simp add: get_frame_def)
qed

lemma get_frame_explicit:
  assumes "BivariateDataset1D_init svd st r = Inr self"
    "- int (Q self) \<le> k" "k < int (Q self)"
  shows "\<exists>ad n blocks W us ss rs.
           r = Base ad \<and> st ! ad = Arr3 (Q self) n blocks \<and>
           BivariateDataset1D_cov st self = Inr W \<and> length W = Q self \<and>
           decompose_nodes svd W = Inr (us, ss, rs) \<and>
           cov st \<lparr>y = NodeView ad k, J = length blocks, I = n,
                 priv_U = Some (np_array_matrix (us ! nat (if k < 0 then k + int (Q self) else k))),
                 priv_s = Some (Arr1 (ss ! nat (if k < 0 then k + int (Q self) else k))),
                 priv_R = Some (np_array_matrix (rs ! nat (if k < 0 then k + int (Q self) else k)))\<rparr> =
             Inr (W ! nat (if k < 0 then k + int (Q self) else k)) \<and>
           get_frame svd st self k =
             Inr \<lparr>y = NodeView ad k, J = length blocks, I = n,
                 priv_U = Some (np_array_matrix (us ! nat (if k < 0 then k + int (Q self) else k))),
                 priv_s = Some (Arr1 (ss ! nat (if k < 0 then k + int (Q self) else k))),
                 priv_R = Some (np_array_matrix (rs ! nat (if k < 0 then k + int (Q self) else k)))\<rparr>"
proof -
  from assms(1) obtain a W us ss rs where
    a: "deref st r = Inr a" and
    c: "cov_nodes a 1 [0..<shape a ! 1] = Inr W" and
    d: "decompose_nodes svd W = Inr (us, ss, rs)" and
    f: "self = \<lparr>y = r, J = shape a ! 0, I = shape a ! 2,
             priv_U = Some (np_array_matrices us), priv_s = Some (np_array_vectors ss),
             priv_R = Some (np_array_matrices rs), Q = shape a ! 1\<rparr>" and
    l: "2 < length (shape a)"
    by (rule BivariateDataset1D_init_fields)
  from l obtain q n blocks where a3: "a = Arr3 q n blocks"
    by (cases a) auto
  from a l obtain ad where r: "r = Base ad"
    by (cases r) (auto dest: np_take_node_rank2)
  from a r have sa: "st ! ad = a" by simp
  from f a3 have qq: "Q self = q" by simp
  define j where "j = nat (if k < 0 then k + int q else k)"
  from assms(2,3) qq have kq: "- int q \<le> k" "k < int q" by simp_all
  then have j: "j < q" by (auto simp: j_def)
  define v where "v = Arr2 n (map (\<lambda>b. b ! j) blocks)"
  from kq have tk: "np_take_node a k = Inr v" by (simp add: a3 v_def j_def)
  from cov_nodes_nth [OF c] a3 have lw: "length W = q" by simp
  have "\<forall>i<length [0..<shape a ! 1]. \<exists>g. np_take_node a (int ([0..<shape a ! 1] ! i)) = Inr g \<and>
      np_cov (np_T g) 1 = Inr (W ! i)"
    using cov_nodes_nth [OF c] by (rule conjunct2)
  moreover from j a3 have "j < length [0..<shape a ! 1]" by simp
  ultimately have "\<exists>g. np_take_node a (int ([0..<shape a ! 1] ! j)) = Inr g \<and>
      np_cov (np_T g) 1 = Inr (W ! j)"
    by blast
  moreover from j a3 have "[0..<shape a ! 1] ! j = j" by simp
  moreover from j have "np_take_node a (int j) = Inr v"
    by (simp add: a3 v_def)
  ultimately have cv: "np_cov (np_T v) 1 = Inr (W ! j)" by simp
  from decompose_nodes_nth [OF d] lw j have
    dk: "decompose svd (W ! j) = Inr (us ! j, ss ! j, rs ! j)" by simp
  define fr where "fr = \<lparr>y = NodeView ad k, J = length blocks, I = n,
      priv_U = Some (np_array_matrix (us ! j)), priv_s = Some (Arr1 (ss ! j)),
      priv_R = Some (np_array_matrix (rs ! j))\<rparr>"
  from sa tk cv dk have "BivariateDataset_init svd st (NodeView ad k) = Inr fr"
    by (simp add: BivariateDataset_init_def init_svd_def cov_def get_cov_def shape_at_def
        v_def fr_def)
  with a r f tk have g: "get_frame svd st self k = Inr fr"
    by (simp add: get_frame_def)
  from a c f have w: "BivariateDataset1D_cov st self = Inr W"
    by (simp add: BivariateDataset1D_cov_def BivariateDataset1D_get_cov_def)
  from sa tk cv have cf: "cov st fr = Inr (W ! j)"
    by (simp add: cov_def get_cov_def fr_def)
  from sa a3 qq have s3: "st ! ad = Arr3 (Q self) n blocks" by simp
  from r s3 w lw qq d cf g show ?thesis
    unfolding fr_def j_def qq [symmetric] by blast
qed

text \<open>
  Claim C6, as amended. For a constructed \<^verbatim>\<open>BivariateDataset1D\<close> with \<open>Q\<close> nodes,
  \<^verbatim>\<open>get_frame(k)\<close> raises \<open>IndexError\<close> exactly when \<open>k\<close> is outside \<open>[-Q, Q)\<close>,
  and returns a frame exactly when \<open>k\<close> is inside. The frame returned for \<open>k\<close> in
  \<open>[0, Q)\<close> holds the observations of node \<open>k\<close>, and the frame returned for \<open>k\<close> in
  \<open>[-Q, 0)\<close> holds the observations of node \<open>Q + k\<close>, as numpy indexing does; its
  covariance is the entry of the parent's covariance at that node. A frame taken at a
  negative index \<open>k\<close> has the same data, counts and decomposition as the frame taken
  at \<open>Q + k\<close>.
\<close>

theorem get_frame_index_range:
  "BivariateDataset1D_init svd st r = Inr self \<longrightarrow>
     (get_frame svd st self k = Inl IndexError) = (\<not> (- int (Q self) \<le> k \<and> k < int (Q self)))
     \<and> ((\<exists>f. get_frame svd st self k = Inr f) = (- int (Q self) \<le> k \<and> k < int (Q self)))
     \<and> (- int (Q self) \<le> k \<and> k < int (Q self) \<longrightarrow>
          (\<exists>f n blocks W. get_frame svd st self k = Inr f
             \<and> deref st (y self) = Inr (Arr3 (Q self) n blocks)
             \<and> deref st (y f) =
                 Inr (Arr2 n (map (\<lambda>b. b ! nat (if k < 0 then int (Q self) + k else k)) blocks))
             \<and> BivariateDataset1D_cov st self = Inr W
             \<and> cov st f = Inr (W ! nat (if k < 0 then int (Q self) + k else k))))
     \<and> (- int (Q self) \<le> k \<and> k < 0 \<longrightarrow>
          (\<exists>f g. get_frame svd st self k = Inr f
             \<and> get_frame svd st self (int (Q self) + k) = Inr g
             \<and> deref st (y g) = deref st (y f)
             \<and> J g = J f \<and> I g = I f
             \<and> priv_U g = priv_U f \<and> priv_s g = priv_s f \<and> priv_R g = priv_R f))"
proof (intro impI conjI)
  assume h: "BivariateDataset1D_init svd st r = Inr self"
  show "(get_frame svd st self k = Inl IndexError) = (\<not> (- int (Q self) \<le> k \<and> k < int (Q self)))"
  proof (cases "- int (Q self) \<le> k \<and> k < int (Q self)")
    case True
    with get_frame_valid [OF h, of k] show ?thesis by auto
  next
    case False
    with get_frame_invalid [OF h, of k] show ?thesis by auto
  qed
  show "(\<exists>f. get_frame svd st self k = Inr f) = (- int (Q self) \<le> k \<and> k < int (Q self))"
  proof (cases "- int (Q self) \<le> k \<and> k < int (Q self)")
    case True
    with get_frame_valid [OF h, of k] show ?thesis by auto
  next
    case False
    with get_frame_invalid [OF h, of k] show ?thesis by auto
  qed
  from h have ys: "y self = r"
    by (elim BivariateDataset1D_init_fields) simp
  {
    assume b: "- int (Q self) \<le> k \<and> k < int (Q self)"
    then have b1: "- int (Q self) \<le> k" and b2: "k < int (Q self)" by simp_all
    from get_frame_explicit [OF h b1 b2] obtain ad n blocks W us ss rs where
      r: "r = Base ad" and s: "st ! ad = Arr3 (Q self) n blocks" and
      w: "BivariateDataset1D_cov st self = Inr W" and
      c: "cov st \<lparr>y = NodeView ad k, J = length blocks, I = n,
                 priv_U = Some (np_array_matrix (us ! nat (if k < 0 then k + int (Q self) else k))),
                 priv_s = Some (Arr1 (ss ! nat (if k < 0 then k + int (Q self) else k))),
                 priv_R = Some (np_array_matrix (rs ! nat (if k < 0 then k + int (Q self) else k)))\<rparr> =
             Inr (W ! nat (if k < 0 then k + int (Q self) else k))" and
      g: "get_frame svd st self k =
             Inr \<lparr>y = NodeView ad k, J = length blocks, I = n,
                 priv_U = Some (np_array_matrix (us ! nat (if k < 0 then k + int (Q self) else k))),
                 priv_s = Some (Arr1 (ss ! nat (if k < 0 then k + int (Q self) else k))),
                 priv_R = Some (np_array_matrix (rs ! nat (if k < 0 then k + int (Q self) else k)))\<rparr>"
      by blast
    have e: "(if k < 0 then k + int (Q self) else k) = (if k < 0 then int (Q self) + k else k)"
      by simp
    from r s ys have d1: "deref st (y self) = Inr (Arr3 (Q self) n blocks)" by simp
    from s b1 b2 have d2: "deref st (NodeView ad k) =
        Inr (Arr2 n (map (\<lambda>b. b ! nat (if k < 0 then int (Q self) + k else k)) blocks))"
      by (simp add: e)
    from g d1 d2 w c
    show "\<exists>f n blocks W. get_frame svd st self k = Inr f
             \<and> deref st (y self) = Inr (Arr3 (Q self) n blocks)
             \<and> deref st (y f) =
                 Inr (Arr2 n (map (\<lambda>b. b ! nat (if k < 0 then int (Q self) + k else k)) blocks))
             \<and> BivariateDataset1D_cov st self = Inr W
             \<and> cov st f = Inr (W ! nat (if k < 0 then int (Q self) + k else k))"
      unfolding e by (intro exI conjI) simp_all
  }
  {
    assume b: "- int (Q self) \<le> k \<and> k < 0"
    then have b1: "- int (Q self) \<le> k" and b2: "k < int (Q self)" and
      b3: "- int (Q self) \<le> int (Q self) + k" and b4: "int (Q self) + k < int (Q self)"
      and neg: "k < 0" and pos: "\<not> int (Q self) + k < 0"
      by simp_all
    from get_frame_explicit [OF h b1 b2] neg obtain ad n blocks W us ss rs where
      s: "st ! ad = Arr3 (Q self) n blocks" and r: "r = Base ad" and
      w: "BivariateDataset1D_cov st self = Inr W" and
      d: "decompose_nodes svd W = Inr (us, ss, rs)" and
      g: "get_frame svd st self k =
             Inr \<lparr>y = NodeView ad k, J = length blocks, I = n,
                 priv_U = Some (np_array_matrix (us ! nat (k + int (Q self)))),
                 priv_s = Some (Arr1 (ss ! nat (k + int (Q self)))),
                 priv_R = Some (np_array_matrix (rs ! nat (k + int (Q self))))\<rparr>"
      by auto
    from get_frame_explicit [OF h b3 b4] pos obtain ad' n' blocks' W' us' ss' rs' where
      s': "st ! ad' = Arr3 (Q self) n' blocks'" and r': "r = Base ad'" and
      w': "BivariateDataset1D_cov st self = Inr W'" and
      d': "decompose_nodes svd W' = Inr (us', ss', rs')" and
      g': "get_frame svd st self (int (Q self) + k) =
             Inr \<lparr>y = NodeView ad' (int (Q self) + k), J = length blocks', I = n',
                 priv_U = Some (np_array_matrix (us' ! nat (int (Q self) + k))),
                 priv_s = Some (Arr1 (ss' ! nat (int (Q self) + k))),
                 priv_R = Some (np_array_matrix (rs' ! nat (int (Q self) + k)))\<rparr>"
      by auto
    from r r' have ad: "ad' = ad" by simp
    with s s' have nb: "n' = n" "blocks' = blocks" by simp_all
    from w w' have "W' = W" by simp
    with d d' have ur: "us' = us" "ss' = ss" "rs' = rs" by simp_all
    have e: "k + int (Q self) = int (Q self) + k" by simp
    from s b1 b2 b3 b4 neg pos have dd: "deref st (NodeView ad (int (Q self) + k)) =
        deref st (NodeView ad k)"
      by (simp add: e)
    define f where "f = \<lparr>y = NodeView ad k, J = length blocks, I = n,
                 priv_U = Some (np_array_matrix (us ! nat (k + int (Q self)))),
                 priv_s = Some (Arr1 (ss ! nat (k + int (Q self)))),
                 priv_R = Some (np_array_matrix (rs ! nat (k + int (Q self))))\<rparr>"
    define g0 where "g0 = \<lparr>y = NodeView ad (int (Q self) + k), J = length blocks, I = n,
                 priv_U = Some (np_array_matrix (us ! nat (k + int (Q self)))),
                 priv_s = Some (Arr1 (ss ! nat (k + int (Q self)))),
                 priv_R = Some (np_array_matrix (rs ! nat (k + int (Q self))))\<rparr>"
    from g have gf: "get_frame svd st self k = Inr f" by (simp add: f_def)
    from g' have gg: "get_frame svd st self (int (Q self) + k) = Inr g0"
      by (simp add: g0_def ad nb ur e)
    from dd have "deref st (y g0) = deref st (y f)" by (simp add: f_def g0_def)
    moreover have "J g0 = J f" "I g0 = I f" "priv_U g0 = priv_U f" "priv_s g0 = priv_s f"
      "priv_R g0 = priv_R f"
      by (simp_all add: f_def g0_def)
    ultimately show "\<exists>f g. get_frame svd st self k = Inr f
             \<and> get_frame svd st self (int (Q self) + k) = Inr g
             \<and> deref st (y g) = deref st (y f)
             \<and> J g = J f \<and> I g = I f
             \<and> priv_U g = priv_U f \<and> priv_s g = priv_s f \<and> priv_R g = priv_R f"
      using gf gg by blast
  }
qed


theorem get_frame_index_range_witness:
  "BivariateDataset1D_init svd_axis_aligned
      [Arr3 2 2 [[[0, - 1], [1, 0]], [[0, 1], [- 1, 0]]]] (Base 0) =
     Inr \<lparr>y = Base 0, J = 2, I = 2,
          priv_U = Some (Arr3 2 2 [[[0, - 1], [1, 0]], [[1, 0], [0, 1]]]),
          priv_s = Some (Arr2 2 [[1, 0], [1, 0]]),
          priv_R = Some (Arr3 2 2 [[[0, 1], [- 1, 0]], [[1, 0], [0, 1]]]), Q = 2\<rparr>
   \<and> (\<exists>f. get_frame svd_axis_aligned [Arr3 2 2 [[[0, - 1], [1, 0]], [[0, 1], [- 1, 0]]]]
        \<lparr>y = Base 0, J = 2, I = 2,
          priv_U = Some (Arr3 2 2 [[[0, - 1], [1, 0]], [[1, 0], [0, 1]]]),
          priv_s = Some (Arr2 2 [[1, 0], [1, 0]]),
          priv_R = Some (Arr3 2 2 [[[0, 1], [- 1, 0]], [[1, 0], [0, 1]]]), Q = 2\<rparr> (- 2) = Inr f)
   \<and> get_frame svd_axis_aligned [Arr3 2 2 [[[0, - 1], [1, 0]], [[0, 1], [- 1, 0]]]]
        \<lparr>y = Base 0, J = 2, I = 2,
          priv_U = Some (Arr3 2 2 [[[0, - 1], [1, 0]], [[1, 0], [0, 1]]]),
          priv_s = Some (Arr2 2 [[1, 0], [1, 0]]),
          priv_R = Some (Arr3 2 2 [[[0, 1], [- 1, 0]], [[1, 0], [0, 1]]]), Q = 2\<rparr> 2 =
       Inl IndexError
   \<and> get_frame svd_axis_aligned [Arr3 2 2 [[[0, - 1], [1, 0]], [[0, 1], [- 1, 0]]]]
        \<lparr>y = Base 0, J = 2, I = 2,
          priv_U = Some (Arr3 2 2 [[[0, - 1], [1, 0]], [[1, 0], [0, 1]]]),
          priv_s = Some (Arr2 2 [[1, 0], [1, 0]]),
          priv_R = Some (Arr3 2 2 [[[0, 1], [- 1, 0]], [[1, 0], [0, 1]]]), Q = 2\<rparr> (- 3) =
       Inl IndexError
   \<and> (\<exists>f W. get_frame svd_axis_aligned [Arr3 2 2 [[[0, - 1], [1, 0]], [[0, 1], [- 1, 0]]]]
        \<lparr>y = Base 0, J = 2, I = 2,
          priv_U = Some (Arr3 2 2 [[[0, - 1], [1, 0]], [[1, 0], [0, 1]]]),
          priv_s = Some (Arr2 2 [[1, 0], [1, 0]]),
          priv_R = Some (Arr3 2 2 [[[0, 1], [- 1, 0]], [[1, 0], [0, 1]]]), Q = 2\<rparr> (- 1) = Inr f
        \<and> deref [Arr3 2 2 [[[0, - 1], [1, 0]], [[0, 1], [- 1, 0]]]] (y f) =
            Inr (Arr2 2 [[1, 0], [- 1, 0]])
        \<and> BivariateDataset1D_cov [Arr3 2 2 [[[0, - 1], [1, 0]], [[0, 1], [- 1, 0]]]]
            \<lparr>y = Base 0, J = 2, I = 2,
              priv_U = Some (Arr3 2 2 [[[0, - 1], [1, 0]], [[1, 0], [0, 1]]]),
              priv_s = Some (Arr2 2 [[1, 0], [1, 0]]),
              priv_R = Some (Arr3 2 2 [[[0, 1], [- 1, 0]], [[1, 0], [0, 1]]]), Q = 2\<rparr> = Inr W
        \<and> cov [Arr3 2 2 [[[0, - 1], [1, 0]], [[0, 1], [- 1, 0]]]] f = Inr (W ! 1))
   \<and> (\<exists>f g. get_frame svd_axis_aligned [Arr3 2 2 [[[0, - 1], [1, 0]], [[0, 1], [- 1, 0]]]]
        \<lparr>y = Base 0, J = 2, I = 2,
          priv_U = Some (Arr3 2 2 [[[0, - 1], [1, 0]], [[1, 0], [0, 1]]]),
          priv_s = Some (Arr2 2 [[1, 0], [1, 0]]),
          priv_R = Some (Arr3 2 2 [[[0, 1], [- 1, 0]], [[1, 0], [0, 1]]]), Q = 2\<rparr> (- 2) = Inr f
        \<and> get_frame svd_axis_aligned [Arr3 2 2 [[[0, - 1], [1, 0]], [[0, 1], [- 1, 0]]]]
        \<lparr>y = Base 0, J = 2, I = 2,
          priv_U = Some (Arr3 2 2 [[[0, - 1], [1, 0]], [[1, 0], [0, 1]]]),
          priv_s = Some (Arr2 2 [[1, 0], [1, 0]]),
          priv_R = Some (Arr3 2 2 [[[0, 1], [- 1, 0]], [[1, 0], [0, 1]]]), Q = 2\<rparr> 0 = Inr g
        \<and> deref [Arr3 2 2 [[[0, - 1], [1, 0]], [[0, 1], [- 1, 0]]]] (y g) =
            deref [Arr3 2 2 [[[0, - 1], [1, 0]], [[0, 1], [- 1, 0]]]] (y f)
        \<and> J g = J f \<and> I g = I f
        \<and> priv_U g = priv_U f \<and> priv_s g = priv_s f \<and> priv_R g = priv_R f)"
proof -
  let ?st = "[Arr3 2 2 [[[0, - 1], [1, 0]], [[0, 1], [- 1, 0]]]] :: store"
  let ?o1 = "\<lparr>y = Base 0, J = 2, I = 2,
          priv_U = Some (Arr3 2 2 [[[0, - 1], [1, 0]], [[1, 0], [0, 1]]]),
          priv_s = Some (Arr2 2 [[1, 0], [1, 0]]),
          priv_R = Some (Arr3 2 2 [[[0, 1], [- 1, 0]], [[1, 0], [0, 1]]]), Q = 2\<rparr>"
  have p: "BivariateDataset1D_init svd_axis_aligned ?st (Base 0) = Inr ?o1"
    by (simp add: evals)
  note t = get_frame_index_range [where svd = svd_axis_aligned and st = ?st and r = "Base 0"
      and self = ?o1, THEN mp, OF p]
  from t [of "- 2"] have c1: "\<exists>f. get_frame svd_axis_aligned ?st ?o1 (- 2) = Inr f" by simp
  from t [of 2] have c2: "get_frame svd_axis_aligned ?st ?o1 2 = Inl IndexError" by simp
  from t [of "- 3"] have c3: "get_frame svd_axis_aligned ?st ?o1 (- 3) = Inl IndexError" by simp
  have "\<exists>f n blocks W. get_frame svd_axis_aligned ?st ?o1 (- 1) = Inr f
        \<and> deref ?st (y ?o1) = Inr (Arr3 (Q ?o1) n blocks)
        \<and> deref ?st (y f) =
            Inr (Arr2 n (map (\<lambda>b. b ! nat (if (- 1 :: int) < 0 then int (Q ?o1) + - 1 else - 1)) blocks))
        \<and> BivariateDataset1D_cov ?st ?o1 = Inr W
        \<and> cov ?st f = Inr (W ! nat (if (- 1 :: int) < 0 then int (Q ?o1) + - 1 else - 1))"
    by (rule t [of "- 1", THEN conjunct2, THEN conjunct2, THEN conjunct1, THEN mp]) simp
  then have c4: "\<exists>f W. get_frame svd_axis_aligned ?st ?o1 (- 1) = Inr f
        \<and> deref ?st (y f) = Inr (Arr2 2 [[1, 0], [- 1, 0]])
        \<and> BivariateDataset1D_cov ?st ?o1 = Inr W
        \<and> cov ?st f = Inr (W ! 1)"
    by auto
  have "\<exists>f g. get_frame svd_axis_aligned ?st ?o1 (- 2) = Inr f
        \<and> get_frame svd_axis_aligned ?st ?o1 (int (Q ?o1) + - 2) = Inr g
        \<and> deref ?st (y g) = deref ?st (y f)
        \<and> J g = J f \<and> I g = I f
        \<and> priv_U g = priv_U f \<and> priv_s g = priv_s f \<and> priv_R g = priv_R f"
    by (rule t [of "- 2", THEN conjunct2, THEN conjunct2, THEN conjunct2, THEN mp]) simp
  then have c5: "\<exists>f g. get_frame svd_axis_aligned ?st ?o1 (- 2) = Inr f
        \<and> get_frame svd_axis_aligned ?st ?o1 0 = Inr g
        \<and> deref ?st (y g) = deref ?st (y f)
        \<and> J g = J f \<and> I g = I f
        \<and> priv_U g = priv_U f \<and> priv_s g = priv_s f \<and> priv_R g = priv_R f"
    by simp
  from p c1 c2 c3 c4 c5 show ?thesis by (intro conjI)
qed

text \<open>
  The claim as stated rejects every negative index. On a sample with two nodes the
  index \<open>-1\<close> returns the frame of the last node.
\<close>

theorem negative_frame_counterexample:
  "BivariateDataset1D_init svd_axis_aligned
      [Arr3 2 2 [[[0, - 1], [1, 0]], [[0, 1], [- 1, 0]]]] (Base 0) =
     Inr \<lparr>y = Base 0, J = 2, I = 2,
          priv_U = Some (Arr3 2 2 [[[0, - 1], [1, 0]], [[1, 0], [0, 1]]]),
          priv_s = Some (Arr2 2 [[1, 0], [1, 0]]),
          priv_R = Some (Arr3 2 2 [[[0, 1], [- 1, 0]], [[1, 0], [0, 1]]]), Q = 2\<rparr>
   \<and> get_frame svd_axis_aligned [Arr3 2 2 [[[0, - 1], [1, 0]], [[0, 1], [- 1, 0]]]]
        \<lparr>y = Base 0, J = 2, I = 2,
          priv_U = Some (Arr3 2 2 [[[0, - 1], [1, 0]], [[1, 0], [0, 1]]]),
          priv_s = Some (Arr2 2 [[1, 0], [1, 0]]),
          priv_R = Some (Arr3 2 2 [[[0, 1], [- 1, 0]], [[1, 0], [0, 1]]]), Q = 2\<rparr> (- 1) =
       Inr \<lparr>y = NodeView 0 (- 1), J = 2, I = 2, priv_U = Some (Arr2 2 [[1, 0], [0, 1]]),
            priv_s = Some (Arr1 [1, 0]), priv_R = Some (Arr2 2 [[1, 0], [0, 1]])\<rparr>
   \<and> get_frame svd_axis_aligned [Arr3 2 2 [[[0, - 1], [1, 0]], [[0, 1], [- 1, 0]]]]
        \<lparr>y = Base 0, J = 2, I = 2,
          priv_U = Some (Arr3 2 2 [[[0, - 1], [1, 0]], [[1, 0], [0, 1]]]),
          priv_s = Some (Arr2 2 [[1, 0], [1, 0]]),
          priv_R = Some (Arr3 2 2 [[[0, 1], [- 1, 0]], [[1, 0], [0, 1]]]), Q = 2\<rparr> (- 1) \<noteq>
       Inl IndexError"
  by (simp add: evals)

text \<open>
  Claim C3 (frame extraction consistency). For a constructed \<^verbatim>\<open>BivariateDataset1D\<close>
  and a node index \<open>k\<close> with \<open>0 \<le> k < Q\<close>, \<^verbatim>\<open>get_frame(k)\<close> returns a frame whose
  covariance is entry \<open>k\<close> of the covariance of the functional sample: both are
  computed from the same slice of the array.
\<close>

theorem frame_covariance_consistent:
  "BivariateDataset1D_init svd st r = Inr self \<and> 0 \<le> k \<and> k < int (Q self) \<longrightarrow>
     (\<exists>f W c. get_frame svd st self k = Inr f \<and> BivariateDataset1D_cov st self = Inr W \<and>
        nat k < length W \<and> cov st f = Inr c \<and> c = W ! nat k)"
proof
  assume h: "BivariateDataset1D_init svd st r = Inr self \<and> 0 \<le> k \<and> k < int (Q self)"
  then have "- int (Q self) \<le> k" by simp
  with h get_frame_valid [of svd st r self k] obtain f W where
    "get_frame svd st self k = Inr f" "BivariateDataset1D_cov st self = Inr W"
    "length W = Q self" "cov st f = Inr (W ! nat (if k < 0 then k + int (Q self) else k))"
    by blast
  with h show "\<exists>f W c. get_frame svd st self k = Inr f \<and> BivariateDataset1D_cov st self = Inr W \<and>
        nat k < length W \<and> cov st f = Inr c \<and> c = W ! nat k"
    by auto
qed

theorem frame_covariance_consistent_witness:
  "BivariateDataset1D_init svd_axis_aligned
      [Arr3 2 2 [[[0, - 1], [1, 0]], [[0, 1], [- 1, 0]]]] (Base 0) =
     Inr \<lparr>y = Base 0, J = 2, I = 2,
          priv_U = Some (Arr3 2 2 [[[0, - 1], [1, 0]], [[1, 0], [0, 1]]]),
          priv_s = Some (Arr2 2 [[1, 0], [1, 0]]),
          priv_R = Some (Arr3 2 2 [[[0, 1], [- 1, 0]], [[1, 0], [0, 1]]]), Q = 2\<rparr>
   \<and> (\<exists>f W c. get_frame svd_axis_aligned [Arr3 2 2 [[[0, - 1], [1, 0]], [[0, 1], [- 1, 0]]]]
        \<lparr>y = Base 0, J = 2, I = 2,
          priv_U = Some (Arr3 2 2 [[[0, - 1], [1, 0]], [[1, 0], [0, 1]]]),
          priv_s = Some (Arr2 2 [[1, 0], [1, 0]]),
          priv_R = Some (Arr3 2 2 [[[0, 1], [- 1, 0]], [[1, 0], [0, 1]]]), Q = 2\<rparr> 1 = Inr f \<and>
        BivariateDataset1D_cov [Arr3 2 2 [[[0, - 1], [1, 0]], [[0, 1], [- 1, 0]]]]
        \<lparr>y = Base 0, J = 2, I = 2,
          priv_U = Some (Arr3 2 2 [[[0, - 1], [1, 0]], [[1, 0], [0, 1]]]),
          priv_s = Some (Arr2 2 [[1, 0], [1, 0]]),
          priv_R = Some (Arr3 2 2 [[[0, 1], [- 1, 0]], [[1, 0], [0, 1]]]), Q = 2\<rparr> = Inr W \<and>
        nat 1 < length W \<and>
        cov [Arr3 2 2 [[[0, - 1], [1, 0]], [[0, 1], [- 1, 0]]]] f = Inr c \<and> c = W ! nat 1)"
proof -
  let ?st = "[Arr3 2 2 [[[0, - 1], [1, 0]], [[0, 1], [- 1, 0]]]] :: store"
  let ?o1 = "\<lparr>y = Base 0, J = 2, I = 2,
          priv_U = Some (Arr3 2 2 [[[0, - 1], [1, 0]], [[1, 0], [0, 1]]]),
          priv_s = Some (Arr2 2 [[1, 0], [1, 0]]),
          priv_R = Some (Arr3 2 2 [[[0, 1], [- 1, 0]], [[1, 0], [0, 1]]]), Q = 2\<rparr>"
  have p: "BivariateDataset1D_init svd_axis_aligned ?st (Base 0) = Inr ?o1"
    by (simp add: evals)
  have q: "(0 :: int) \<le> 1" "1 < int (Q ?o1)" by simp_all
  note t = frame_covariance_consistent [where svd = svd_axis_aligned and st = ?st
      and r = "Base 0" and self = ?o1 and k = 1, THEN mp, OF conjI [OF p conjI [OF q]]]
  from p t show ?thesis by (intro conjI)
qed

subsection \<open>Queries and the backing array\<close>

text \<open>
  The queries of the classes contain no assignment: in the model they read the store
  and the object and return a value, and only \<^verbatim>\<open>toarray\<close>, which allocates,
  returns a store. What a query reads is the backing array of the object.
\<close>

lemma deref_append:
  "base r < length st \<Longrightarrow> deref (st @ xs) r = deref st r"
  by (cases r) (simp_all add: nth_append)

lemma deref_write_other:
  "base r \<noteq> a \<Longrightarrow> deref (store_write st a v) r = deref st r"
  by (cases r) (simp_all add: store_write_def)

lemma queries_read_backing_array:
  assumes "deref st' (y self) = deref st (y self)"
  shows "mean st' self = mean st self" "std st' self = std st self"
    "range_prop st' self = range_prop st self"
  using assms by (simp_all add: mean_def std_def range_prop_def)

lemma cov_reads_backing_array:
  assumes "deref st' (y self) = deref st (y self)"
  shows "get_cov st' self bias = get_cov st self bias" "cov st' self = cov st self"
  using assms by (simp_all add: get_cov_def cov_def)

text \<open>
  Claim C9 (defensive copy). For a bivariate sample whose backing array is allocated,
  \<^verbatim>\<open>toarray\<close> returns a reference to a new buffer, at an address that was not
  allocated before and differs from the address of the backing array, holding the
  contents of the backing array. The call changes no buffer that existed before. Any
  later assignment to the returned array leaves the backing array, and with it the
  results of \<^verbatim>\<open>mean\<close>, \<^verbatim>\<open>std\<close>, \<^verbatim>\<open>range\<close>, \<^verbatim>\<open>get_cov\<close> and \<^verbatim>\<open>cov\<close>,
  unchanged.
\<close>

theorem toarray_defensive_copy:
  "base (y self) < length st \<and> deref st (y self) = Inr a \<longrightarrow>
     (\<exists>ref st'. toarray st self = Inr (ref, st') \<and>
        deref st' ref = Inr a \<and> base ref \<noteq> base (y self) \<and> \<not> base ref < length st \<and>
        take (length st) st' = st \<and> deref st' (y self) = Inr a \<and>
        (\<forall>v. deref (store_write st' (base ref) v) (y self) = Inr a \<and>
             mean (store_write st' (base ref) v) self = mean st self \<and>
             std (store_write st' (base ref) v) self = std st self \<and>
             range_prop (store_write st' (base ref) v) self = range_prop st self \<and>
             get_cov (store_write st' (base ref) v) self bias = get_cov st self bias \<and>
             cov (store_write st' (base ref) v) self = cov st self))"
proof
  assume h: "base (y self) < length st \<and> deref st (y self) = Inr a"
  define ref where "ref = Base (length st)"
  define st' where "st' = st @ [a]"
  from h have t: "toarray st self = Inr (ref, st')"
    by (simp add: toarray_def ref_def st'_def)
  have c: "deref st' ref = Inr a" by (simp add: ref_def st'_def)
  from h have n: "base ref \<noteq> base (y self)" "\<not> base ref < length st"
    by (simp_all add: ref_def)
  have k: "take (length st) st' = st" by (simp add: st'_def)
  from h have d: "deref st' (y self) = Inr a"
    by (simp add: st'_def deref_append)
  have w: "deref (store_write st' (base ref) v) (y self) = deref st (y self)" for v
    using n(1) d h by (simp add: deref_write_other)
  have "deref (store_write st' (base ref) v) (y self) = Inr a \<and>
             mean (store_write st' (base ref) v) self = mean st self \<and>
             std (store_write st' (base ref) v) self = std st self \<and>
             range_prop (store_write st' (base ref) v) self = range_prop st self \<and>
             get_cov (store_write st' (base ref) v) self bias = get_cov st self bias \<and>
             cov (store_write st' (base ref) v) self = cov st self" for v
    using queries_read_backing_array [OF w [of v]] cov_reads_backing_array [OF w [of v]]
      w [of v] h by simp
  with t c n k d show "\<exists>ref st'. toarray st self = Inr (ref, st') \<and>
        deref st' ref = Inr a \<and> base ref \<noteq> base (y self) \<and> \<not> base ref < length st \<and>
        take (length st) st' = st \<and> deref st' (y self) = Inr a \<and>
        (\<forall>v. deref (store_write st' (base ref) v) (y self) = Inr a \<and>
             mean (store_write st' (base ref) v) self = mean st self \<and>
             std (store_write st' (base ref) v) self = std st self \<and>
             range_prop (store_write st' (base ref) v) self = range_prop st self \<and>
             get_cov (store_write st' (base ref) v) self bias = get_cov st self bias \<and>
             cov (store_write st' (base ref) v) self = cov st self)"
    by blast
qed

theorem toarray_defensive_copy_witness:
  "deref [Arr2 2 [[1, 2], [3, 4], [5, 6]]]
      (y \<lparr>y = Base 0, J = 3, I = 2, priv_U = None, priv_s = None, priv_R = None\<rparr>) =
     Inr (Arr2 2 [[1, 2], [3, 4], [5, 6]])
   \<and> toarray [Arr2 2 [[1, 2], [3, 4], [5, 6]]]
       \<lparr>y = Base 0, J = 3, I = 2, priv_U = None, priv_s = None, priv_R = None\<rparr> =
     Inr (Base 1, [Arr2 2 [[1, 2], [3, 4], [5, 6]], Arr2 2 [[1, 2], [3, 4], [5, 6]]])
   \<and> (\<exists>ref st'. toarray [Arr2 2 [[1, 2], [3, 4], [5, 6]]]
         \<lparr>y = Base 0, J = 3, I = 2, priv_U = None, priv_s = None, priv_R = None\<rparr> =
         Inr (ref, st') \<and>
       mean (store_write st' (base ref) (Arr2 2 [[0, 0], [0, 0], [0, 0]]))
         \<lparr>y = Base 0, J = 3, I = 2, priv_U = None, priv_s = None, priv_R = None\<rparr> =
       mean [Arr2 2 [[1, 2], [3, 4], [5, 6]]]
         \<lparr>y = Base 0, J = 3, I = 2, priv_U = None, priv_s = None, priv_R = None\<rparr> \<and>
       cov (store_write st' (base ref) (Arr2 2 [[0, 0], [0, 0], [0, 0]]))
         \<lparr>y = Base 0, J = 3, I = 2, priv_U = None, priv_s = None, priv_R = None\<rparr> =
       cov [Arr2 2 [[1, 2], [3, 4], [5, 6]]]
         \<lparr>y = Base 0, J = 3, I = 2, priv_U = None, priv_s = None, priv_R = None\<rparr>)"
proof -
  let ?a = "Arr2 2 [[1, 2], [3, 4], [5, 6]] :: real ndarray"
  let ?o = "\<lparr>y = Base 0, J = 3, I = 2, priv_U = None, priv_s = None, priv_R = None\<rparr>"
  have p: "base (y ?o) < length [?a]" by simp
  have q: "deref [?a] (y ?o) = Inr ?a" by simp
  have e: "toarray [?a] ?o = Inr (Base 1, [?a, ?a])" by (simp add: toarray_def)
  from toarray_defensive_copy [where st = "[?a]" and self = ?o and a = ?a and bias = 1,
      THEN mp, OF conjI [OF p q]]
  obtain ref st' where "toarray [?a] ?o = Inr (ref, st')"
    "\<forall>v. deref (store_write st' (base ref) v) (y ?o) = Inr ?a \<and>
             mean (store_write st' (base ref) v) ?o = mean [?a] ?o \<and>
             std (store_write st' (base ref) v) ?o = std [?a] ?o \<and>
             range_prop (store_write st' (base ref) v) ?o = range_prop [?a] ?o \<and>
             get_cov (store_write st' (base ref) v) ?o 1 = get_cov [?a] ?o 1 \<and>
             cov (store_write st' (base ref) v) ?o = cov [?a] ?o"
    by blast
  then have "\<exists>ref st'. toarray [?a] ?o = Inr (ref, st') \<and>
       mean (store_write st' (base ref) (Arr2 2 [[0, 0], [0, 0], [0, 0]])) ?o = mean [?a] ?o \<and>
       cov (store_write st' (base ref) (Arr2 2 [[0, 0], [0, 0], [0, 0]])) ?o = cov [?a] ?o"
    by blast
  with q e show ?thesis by (intro conjI)
qed

subsection \<open>Normalisation of the standard deviation and of the covariance\<close>

lemma zip_self_map2: "map2 f xs xs = map (\<lambda>x. f x x) xs"
  by (induction xs) simp_all

lemma centred_average: "centred (length v) v = map (\<lambda>x. x - average v) v"
  by (simp add: centred_def average_def)

lemma sum_centred_square:
  "sum_list (map2 (*) (centred (length v) v) (centred (length v) v)) = sum_sq_dev v"
  by (simp add: centred_average zip_self_map2 sum_sq_dev_def power2_eq_square o_def)

lemma sum_centred_commute:
  "sum_list (map2 (*) (centred n v) (centred n w)) =
   sum_list (map2 (*) (centred n w) (centred n v))"
proof -
  have "sum_list (map2 (*) xs ys) = sum_list (map2 (*) ys (xs :: real list))" for xs ys
  proof (induction xs arbitrary: ys)
    case Nil
    then show ?case by simp
  next
    case (Cons a xs)
    then show ?case by (cases ys) (simp_all add: mult.commute)
  qed
  then show ?thesis .
qed

lemma std1_unbiased:
  assumes "2 \<le> length xs"
  shows "\<exists>s. std1 1 xs = Fin s \<and> 0 \<le> s \<and> s\<^sup>2 * real (length xs - 1) = sum_sq_dev xs"
proof -
  have nn: "0 \<le> sum_sq_dev xs" unfolding sum_sq_dev_def by (rule sum_list_nonneg) auto
  from assms have pos: "0 < real (length xs - 1)" by simp
  define s where "s = sqrt (sum_sq_dev xs / real (length xs - 1))"
  from assms have "std1 1 xs = Fin s" by (simp add: std1_def s_def)
  moreover have "0 \<le> s" using nn pos by (simp add: s_def)
  moreover have "s\<^sup>2 = sum_sq_dev xs / real (length xs - 1)"
    using nn pos by (simp add: s_def)
  then have "s\<^sup>2 * real (length xs - 1) = sum_sq_dev xs" using pos by simp
  ultimately show ?thesis by blast
qed

lemma cov_entry_biased:
  assumes "1 \<le> length v" "length w = length v" "bias \<noteq> 0"
  shows "\<exists>c. cov_entry bias (length v) v w = Fin c \<and>
     c * real (length v) = sum_list (map2 (*) (centred (length v) v) (centred (length v) w))"
  using assms by (cases v) (simp_all add: cov_entry_def cov_ddof_def)

lemma sum_centred_cross:
  "sum_list (map2 (*) (centred (length rows) (map f rows)) (centred (length rows) (map g rows))) =
   sum_list (map (\<lambda>r. (f r - average (map f rows)) * (g r - average (map g rows))) rows)"
proof -
  have "map2 (*) (map p rows) (map q rows) = map (\<lambda>r. p r * q r) rows"
    for p q :: "'a \<Rightarrow> real"
    by (induction rows) simp_all
  then show ?thesis
    using centred_average [of "map f rows"] centred_average [of "map g rows"]
    by (simp add: o_def)
qed

lemma cov_two_columns:
  assumes "1 \<le> length rows" "bias \<noteq> 0"
  shows "\<exists>c00 c01 c10 c11.
     cov_matrix bias (length rows) (map (\<lambda>i. map (\<lambda>r. r ! i) rows) [0..<2]) =
       Cov2 [[Fin c00, Fin c01], [Fin c10, Fin c11]] \<and>
     c00 * real (length rows) = sum_sq_dev (map (\<lambda>r. r ! 0) rows) \<and>
     c11 * real (length rows) = sum_sq_dev (map (\<lambda>r. r ! 1) rows) \<and>
     c01 = c10 \<and>
     c01 * real (length rows) =
       sum_list (map (\<lambda>r. (r ! 0 - average (map (\<lambda>r. r ! 0) rows)) *
                           (r ! 1 - average (map (\<lambda>r. r ! 1) rows))) rows)"
proof -
  let ?n = "length rows"
  let ?x = "map (\<lambda>r. r ! 0) rows"
  let ?y = "map (\<lambda>r. r ! 1) rows"
  have u: "map (\<lambda>i. map (\<lambda>r. r ! i) rows) [0..<2] = [?x, ?y]"
    by (simp add: upt_rec)
  from assms cov_entry_biased [of ?x ?x bias] obtain c00 where
    c00: "cov_entry bias ?n ?x ?x = Fin c00"
      "c00 * real ?n = sum_list (map2 (*) (centred ?n ?x) (centred ?n ?x))" by auto
  from assms cov_entry_biased [of ?x ?y bias] obtain c01 where
    c01: "cov_entry bias ?n ?x ?y = Fin c01"
      "c01 * real ?n = sum_list (map2 (*) (centred ?n ?x) (centred ?n ?y))" by auto
  from assms cov_entry_biased [of ?y ?x bias] obtain c10 where
    c10: "cov_entry bias ?n ?y ?x = Fin c10"
      "c10 * real ?n = sum_list (map2 (*) (centred ?n ?y) (centred ?n ?x))" by auto
  from assms cov_entry_biased [of ?y ?y bias] obtain c11 where
    c11: "cov_entry bias ?n ?y ?y = Fin c11"
      "c11 * real ?n = sum_list (map2 (*) (centred ?n ?y) (centred ?n ?y))" by auto
  from c00 c01 c10 c11 have
    "cov_matrix bias ?n [?x, ?y] = Cov2 [[Fin c00, Fin c01], [Fin c10, Fin c11]]"
    by (simp add: cov_matrix_def)
  moreover from c00(2) sum_centred_square [of ?x]
  have "c00 * real ?n = sum_sq_dev ?x" by simp
  moreover from c11(2) sum_centred_square [of ?y]
  have "c11 * real ?n = sum_sq_dev ?y" by simp
  moreover have "c01 = c10"
  proof -
    from c01(2) c10(2) sum_centred_commute [of ?n ?x ?y]
    have "c01 * real ?n = c10 * real ?n" by simp
    with assms(1) show ?thesis by (cases rows) simp_all
  qed
  moreover from c01(2) sum_centred_cross [of rows "\<lambda>r. r ! 0" "\<lambda>r. r ! 1"]
  have "c01 * real ?n =
       sum_list (map (\<lambda>r. (r ! 0 - average ?x) * (r ! 1 - average ?y)) rows)" by simp
  ultimately show ?thesis unfolding u by blast
qed

lemma cov_nodes_map:
  "\<forall>k \<in> set ns. k < q \<Longrightarrow>
   cov_nodes (Arr3 q n blocks) bias ns =
     Inr (map (\<lambda>k. cov_matrix bias (length blocks)
       (map (\<lambda>i. map (\<lambda>r. r ! i) (map (\<lambda>b. b ! k) blocks)) [0..<n])) ns)"
  by (induction ns) simp_all

text \<open>
  Claim C4 (estimator convention). With \<open>N\<close> observations, the standard deviation
  \<open>s\<close> of a fibre returned by \<^verbatim>\<open>std\<close> satisfies
  \<open>s\<^sup>2 * (N - 1) = \<close> sum of squared deviations (for \<open>N \<ge> 2\<close>: for a scalar sample,
  for every column of a rank-2 sample, and for every component of every node of a
  rank-3 sample), while the entries \<open>c\<close> of the default covariance \<^verbatim>\<open>cov\<close> satisfy
  \<open>c * N = \<close> sum of products of deviations (for \<open>N \<ge> 1\<close>, for the 0-D bivariate
  sample and for every node of the 1-D bivariate sample). The two quantities are
  normalised differently.
\<close>

theorem estimator_convention:
  "(deref st (y self) = Inr (Arr1 xs) \<and> 2 \<le> length xs \<longrightarrow>
      (\<exists>s. std st self = Inr (Arr0 (Fin s)) \<and> 0 \<le> s \<and>
           s\<^sup>2 * real (length xs - 1) = sum_sq_dev xs))
   \<and> (deref st (y self) = Inr (Arr2 n rows) \<and> 2 \<le> length rows \<and> i < n \<longrightarrow>
      (\<exists>v s. std st self = Inr (Arr1 v) \<and> length v = n \<and> v ! i = Fin s \<and> 0 \<le> s \<and>
           s\<^sup>2 * real (length rows - 1) = sum_sq_dev (map (\<lambda>r. r ! i) rows)))
   \<and> (deref st (y selfa) = Inr (Arr2 2 rows) \<and> 1 \<le> length rows \<longrightarrow>
      (\<exists>c00 c01 c10 c11.
         cov st selfa = Inr (Cov2 [[Fin c00, Fin c01], [Fin c10, Fin c11]]) \<and>
         c00 * real (length rows) = sum_sq_dev (map (\<lambda>r. r ! 0) rows) \<and>
         c11 * real (length rows) = sum_sq_dev (map (\<lambda>r. r ! 1) rows) \<and>
         c01 = c10 \<and>
         c01 * real (length rows) =
           sum_list (map (\<lambda>r. (r ! 0 - average (map (\<lambda>r. r ! 0) rows)) *
                               (r ! 1 - average (map (\<lambda>r. r ! 1) rows))) rows)))
   \<and> (deref st (y selfb) = Inr (Arr3 q 2 blocks) \<and> Q selfb = q \<and> 1 \<le> length blocks \<and>
       k < q \<longrightarrow>
      (\<exists>W c00 c01 c10 c11.
         BivariateDataset1D_cov st selfb = Inr W \<and> length W = q \<and>
         W ! k = Cov2 [[Fin c00, Fin c01], [Fin c10, Fin c11]] \<and>
         c00 * real (length blocks) = sum_sq_dev (map (\<lambda>b. b ! k ! 0) blocks) \<and>
         c11 * real (length blocks) = sum_sq_dev (map (\<lambda>b. b ! k ! 1) blocks) \<and>
         c01 = c10 \<and>
         c01 * real (length blocks) =
           sum_list (map (\<lambda>b. (b ! k ! 0 - average (map (\<lambda>b. b ! k ! 0) blocks)) *
                               (b ! k ! 1 - average (map (\<lambda>b. b ! k ! 1) blocks))) blocks)))
   \<and> (deref st (y selfc) = Inr (Arr3 qc nc blocksc) \<and> 2 \<le> length blocksc \<and>
       kc < qc \<and> ic < nc \<longrightarrow>
      (\<exists>v s. std st selfc = Inr (Arr2 nc v) \<and> length v = qc \<and> length (v ! kc) = nc \<and>
           v ! kc ! ic = Fin s \<and> 0 \<le> s \<and>
           s\<^sup>2 * real (length blocksc - 1) = sum_sq_dev (map (\<lambda>b. b ! kc ! ic) blocksc)))"
proof (intro conjI impI)
  assume h: "deref st (y self) = Inr (Arr1 xs) \<and> 2 \<le> length xs"
  then have "std st self = Inr (Arr0 (std1 1 xs))" by (simp add: std_def np_std_def)
  with h std1_unbiased [of xs]
  show "\<exists>s. std st self = Inr (Arr0 (Fin s)) \<and> 0 \<le> s \<and>
           s\<^sup>2 * real (length xs - 1) = sum_sq_dev xs"
    by auto
next
  assume h: "deref st (y self) = Inr (Arr2 n rows) \<and> 2 \<le> length rows \<and> i < n"
  define v where "v = map (\<lambda>i. std1 1 (map (\<lambda>r. r ! i) rows)) [0..<n]"
  from h have s: "std st self = Inr (Arr1 v)" by (simp add: std_def np_std_def v_def)
  from h have "v ! i = std1 1 (map (\<lambda>r. r ! i) rows)" "length v = n" by (simp_all add: v_def)
  with h s std1_unbiased [of "map (\<lambda>r. r ! i) rows"]
  show "\<exists>v s. std st self = Inr (Arr1 v) \<and> length v = n \<and> v ! i = Fin s \<and> 0 \<le> s \<and>
           s\<^sup>2 * real (length rows - 1) = sum_sq_dev (map (\<lambda>r. r ! i) rows)"
    by auto
next
  assume h: "deref st (y selfa) = Inr (Arr2 2 rows) \<and> 1 \<le> length rows"
  then have "cov st selfa =
      Inr (cov_matrix 1 (length rows) (map (\<lambda>i. map (\<lambda>r. r ! i) rows) [0..<2]))"
    by (simp add: cov_def get_cov_def)
  with h cov_two_columns [of rows 1]
  show "\<exists>c00 c01 c10 c11.
         cov st selfa = Inr (Cov2 [[Fin c00, Fin c01], [Fin c10, Fin c11]]) \<and>
         c00 * real (length rows) = sum_sq_dev (map (\<lambda>r. r ! 0) rows) \<and>
         c11 * real (length rows) = sum_sq_dev (map (\<lambda>r. r ! 1) rows) \<and>
         c01 = c10 \<and>
         c01 * real (length rows) =
           sum_list (map (\<lambda>r. (r ! 0 - average (map (\<lambda>r. r ! 0) rows)) *
                               (r ! 1 - average (map (\<lambda>r. r ! 1) rows))) rows)"
    by auto
next
  assume h: "deref st (y selfb) = Inr (Arr3 q 2 blocks) \<and> Q selfb = q \<and> 1 \<le> length blocks \<and>
       k < q"
  define W where "W = map (\<lambda>k. cov_matrix 1 (length blocks)
       (map (\<lambda>i. map (\<lambda>r. r ! i) (map (\<lambda>b. b ! k) blocks)) [0..<2])) [0..<q]"
  from h cov_nodes_map [of "[0..<q]" q 2 blocks 1]
  have w: "BivariateDataset1D_cov st selfb = Inr W"
    by (simp add: BivariateDataset1D_cov_def BivariateDataset1D_get_cov_def W_def)
  have lw: "length W = q" by (simp add: W_def)
  from h have wk: "W ! k = cov_matrix 1 (length (map (\<lambda>b. b ! k) blocks))
       (map (\<lambda>i. map (\<lambda>r. r ! i) (map (\<lambda>b. b ! k) blocks)) [0..<2])"
    by (simp add: W_def)
  from h cov_two_columns [of "map (\<lambda>b. b ! k) blocks" 1] obtain c00 c01 c10 c11 where
    "cov_matrix 1 (length (map (\<lambda>b. b ! k) blocks))
       (map (\<lambda>i. map (\<lambda>r. r ! i) (map (\<lambda>b. b ! k) blocks)) [0..<2]) =
       Cov2 [[Fin c00, Fin c01], [Fin c10, Fin c11]]"
    "c00 * real (length (map (\<lambda>b. b ! k) blocks)) =
       sum_sq_dev (map (\<lambda>r. r ! 0) (map (\<lambda>b. b ! k) blocks))"
    "c11 * real (length (map (\<lambda>b. b ! k) blocks)) =
       sum_sq_dev (map (\<lambda>r. r ! 1) (map (\<lambda>b. b ! k) blocks))"
    "c01 = c10"
    "c01 * real (length (map (\<lambda>b. b ! k) blocks)) =
       sum_list (map (\<lambda>r. (r ! 0 - average (map (\<lambda>r. r ! 0) (map (\<lambda>b. b ! k) blocks))) *
                           (r ! 1 - average (map (\<lambda>r. r ! 1) (map (\<lambda>b. b ! k) blocks))))
                  (map (\<lambda>b. b ! k) blocks))"
    by auto
  with w lw wk
  show "\<exists>W c00 c01 c10 c11.
         BivariateDataset1D_cov st selfb = Inr W \<and> length W = q \<and>
         W ! k = Cov2 [[Fin c00, Fin c01], [Fin c10, Fin c11]] \<and>
         c00 * real (length blocks) = sum_sq_dev (map (\<lambda>b. b ! k ! 0) blocks) \<and>
         c11 * real (length blocks) = sum_sq_dev (map (\<lambda>b. b ! k ! 1) blocks) \<and>
         c01 = c10 \<and>
         c01 * real (length blocks) =
           sum_list (map (\<lambda>b. (b ! k ! 0 - average (map (\<lambda>b. b ! k ! 0) blocks)) *
                               (b ! k ! 1 - average (map (\<lambda>b. b ! k ! 1) blocks))) blocks)"
    by (simp add: o_def)
next
  assume h: "deref st (y selfc) = Inr (Arr3 qc nc blocksc) \<and> 2 \<le> length blocksc \<and>
       kc < qc \<and> ic < nc"
  define v where
    "v = map (\<lambda>k. map (\<lambda>i. std1 1 (map (\<lambda>b. b ! k ! i) blocksc)) [0..<nc]) [0..<qc]"
  from h have s: "std st selfc = Inr (Arr2 nc v)" by (simp add: std_def np_std_def v_def)
  from h have "v ! kc ! ic = std1 1 (map (\<lambda>b. b ! kc ! ic) blocksc)" "length v = qc"
    "length (v ! kc) = nc"
    by (simp_all add: v_def)
  with h s std1_unbiased [of "map (\<lambda>b. b ! kc ! ic) blocksc"]
  show "\<exists>v s. std st selfc = Inr (Arr2 nc v) \<and> length v = qc \<and> length (v ! kc) = nc \<and>
           v ! kc ! ic = Fin s \<and> 0 \<le> s \<and>
           s\<^sup>2 * real (length blocksc - 1) = sum_sq_dev (map (\<lambda>b. b ! kc ! ic) blocksc)"
    by auto
qed

theorem estimator_convention_witness:
  "std [Arr1 [1, 3, 5], Arr2 2 [[1, 2], [3, 4], [5, 6]], Arr3 1 2 [[[1, 2]], [[3, 4]], [[5, 6]]]]
       \<lparr>y = Base 0, J = 3\<rparr> = Inr (Arr0 (Fin 2))
   \<and> (\<exists>v. std [Arr1 [1, 3, 5], Arr2 2 [[1, 2], [3, 4], [5, 6]],
                Arr3 1 2 [[[1, 2]], [[3, 4]], [[5, 6]]]]
         \<lparr>y = Base 1, J = 3\<rparr> = Inr (Arr1 v) \<and> length v = 2 \<and> v ! 1 = Fin 2)
   \<and> cov [Arr1 [1, 3, 5], Arr2 2 [[1, 2], [3, 4], [5, 6]], Arr3 1 2 [[[1, 2]], [[3, 4]], [[5, 6]]]]
       \<lparr>y = Base 1, J = 3, I = 2, priv_U = None, priv_s = None, priv_R = None\<rparr> =
     Inr (Cov2 [[Fin (8 / 3), Fin (8 / 3)], [Fin (8 / 3), Fin (8 / 3)]])
   \<and> (\<exists>W. BivariateDataset1D_cov
         [Arr1 [1, 3, 5], Arr2 2 [[1, 2], [3, 4], [5, 6]], Arr3 1 2 [[[1, 2]], [[3, 4]], [[5, 6]]]]
         \<lparr>y = Base 2, J = 3, I = 2, priv_U = None, priv_s = None, priv_R = None, Q = 1\<rparr> =
         Inr W \<and> length W = 1 \<and>
         W ! 0 = Cov2 [[Fin (8 / 3), Fin (8 / 3)], [Fin (8 / 3), Fin (8 / 3)]])
   \<and> (\<exists>v. std [Arr1 [1, 3, 5], Arr2 2 [[1, 2], [3, 4], [5, 6]],
                Arr3 1 2 [[[1, 2]], [[3, 4]], [[5, 6]]]]
         \<lparr>y = Base 2, J = 3, I = 2, priv_U = None, priv_s = None, priv_R = None, Q = 1\<rparr> =
         Inr (Arr2 2 v) \<and> length v = 1 \<and> length (v ! 0) = 2 \<and> v ! 0 ! 1 = Fin 2)"
proof -
  let ?a = "Arr1 [1, 3, 5] :: real ndarray"
  let ?b = "Arr2 2 [[1, 2], [3, 4], [5, 6]] :: real ndarray"
  let ?c = "Arr3 1 2 [[[1, 2]], [[3, 4]], [[5, 6]]] :: real ndarray"
  let ?st = "[?a, ?b, ?c]"
  let ?o0 = "\<lparr>y = Base 0, J = 3\<rparr>"
  let ?o1 = "\<lparr>y = Base 1, J = 3\<rparr>"
  let ?o2 = "\<lparr>y = Base 1, J = 3, I = 2, priv_U = None, priv_s = None, priv_R = None\<rparr>"
  let ?o3 = "\<lparr>y = Base 2, J = 3, I = 2, priv_U = None, priv_s = None, priv_R = None, Q = 1\<rparr>"
  have root: "s = 2" if "0 \<le> s" "s\<^sup>2 * 2 = 8" for s :: real
  proof -
    from that(2) have "s\<^sup>2 = 2\<^sup>2" by simp
    with that(1) show ?thesis by (simp only: power2_eq_iff_nonneg zero_le_numeral)
  qed
  have third: "c = 8 / 3" if "c * 3 = 8" for c :: real
    using that by simp
  have ss: "sum_sq_dev [1, 3, 5] = 8" "sum_sq_dev [2, 4, 6] = 8"
    by (simp_all add: sum_sq_dev_def average_def)
  have p1: "deref ?st (y ?o0) = Inr (Arr1 [1, 3, 5]) \<and> 2 \<le> length [1, 3, 5 :: real]"
    by simp
  have p2: "deref ?st (y ?o1) = Inr (Arr2 2 [[1, 2], [3, 4], [5, 6]]) \<and>
      2 \<le> length [[1, 2], [3, 4], [5, 6 :: real]] \<and> (1 :: nat) < 2"
    by simp
  have p3: "deref ?st (y ?o2) = Inr (Arr2 2 [[1, 2], [3, 4], [5, 6]]) \<and>
      1 \<le> length [[1, 2], [3, 4], [5, 6 :: real]]"
    by simp
  have p4: "deref ?st (y ?o3) = Inr (Arr3 1 2 [[[1, 2]], [[3, 4]], [[5, 6]]]) \<and> Q ?o3 = 1 \<and>
      1 \<le> length [[[1, 2]], [[3, 4]], [[5, 6 :: real]]] \<and> (0 :: nat) < 1"
    by simp
  have p5: "deref ?st (y ?o3) = Inr (Arr3 1 2 [[[1, 2]], [[3, 4]], [[5, 6]]]) \<and>
      2 \<le> length [[[1, 2]], [[3, 4]], [[5, 6 :: real]]] \<and> (0 :: nat) < 1 \<and> (1 :: nat) < 2"
    by simp
  note ta = estimator_convention [where st = ?st and self = ?o0 and xs = "[1, 3, 5]"]
  note tc = estimator_convention [where st = ?st and selfc = ?o3 and qc = 1 and nc = 2
      and blocksc = "[[[1, 2]], [[3, 4]], [[5, 6]]]" and kc = 0 and ic = 1]
  note tb = estimator_convention [where st = ?st and self = ?o1 and n = 2
      and rows = "[[1, 2], [3, 4], [5, 6]]" and i = 1 and selfa = ?o2 and selfb = ?o3 and q = 1
      and blocks = "[[[1, 2]], [[3, 4]], [[5, 6]]]" and k = 0]
  from ta [THEN conjunct1, THEN mp, OF p1] ss root
  have c1: "std ?st ?o0 = Inr (Arr0 (Fin 2))" by auto
  from tb [THEN conjunct2, THEN conjunct1, THEN mp, OF p2] obtain v s where
    "std ?st ?o1 = Inr (Arr1 v)" "length v = 2" "v ! 1 = Fin s" "0 \<le> s"
    "s\<^sup>2 * real (length [[1, 2], [3, 4], [5, 6 :: real]] - 1) =
       sum_sq_dev (map (\<lambda>r. r ! 1) [[1, 2], [3, 4], [5, 6]])"
    by blast
  with ss root have c2: "\<exists>v. std ?st ?o1 = Inr (Arr1 v) \<and> length v = 2 \<and> v ! 1 = Fin 2"
    by auto
  from tb [THEN conjunct2, THEN conjunct2, THEN conjunct1, THEN mp, OF p3]
  obtain c00 c01 c10 c11 where
    "cov ?st ?o2 = Inr (Cov2 [[Fin c00, Fin c01], [Fin c10, Fin c11]])"
    "c00 * real (length [[1, 2], [3, 4], [5, 6 :: real]]) =
       sum_sq_dev (map (\<lambda>r. r ! 0) [[1, 2], [3, 4], [5, 6]])"
    "c11 * real (length [[1, 2], [3, 4], [5, 6 :: real]]) =
       sum_sq_dev (map (\<lambda>r. r ! 1) [[1, 2], [3, 4], [5, 6]])"
    "c01 = c10"
    "c01 * real (length [[1, 2], [3, 4], [5, 6 :: real]]) =
       sum_list (map (\<lambda>r. (r ! 0 - average (map (\<lambda>r. r ! 0) [[1, 2], [3, 4], [5, 6]])) *
                          (r ! 1 - average (map (\<lambda>r. r ! 1) [[1, 2], [3, 4], [5, 6]])))
                  [[1, 2], [3, 4], [5, 6]])"
    by blast
  with ss third have c3: "cov ?st ?o2 =
      Inr (Cov2 [[Fin (8 / 3), Fin (8 / 3)], [Fin (8 / 3), Fin (8 / 3)]])"
    by (simp add: average_def)
  from tb [THEN conjunct2, THEN conjunct2, THEN conjunct2, THEN conjunct1, THEN mp, OF p4]
  obtain W c00 c01 c10 c11 where
    "BivariateDataset1D_cov ?st ?o3 = Inr W" "length W = 1"
    "W ! 0 = Cov2 [[Fin c00, Fin c01], [Fin c10, Fin c11]]"
    "c00 * real (length [[[1, 2]], [[3, 4]], [[5, 6 :: real]]]) =
       sum_sq_dev (map (\<lambda>b. b ! 0 ! 0) [[[1, 2]], [[3, 4]], [[5, 6]]])"
    "c11 * real (length [[[1, 2]], [[3, 4]], [[5, 6 :: real]]]) =
       sum_sq_dev (map (\<lambda>b. b ! 0 ! 1) [[[1, 2]], [[3, 4]], [[5, 6]]])"
    "c01 = c10"
    "c01 * real (length [[[1, 2]], [[3, 4]], [[5, 6 :: real]]]) =
       sum_list (map (\<lambda>b. (b ! 0 ! 0 - average (map (\<lambda>b. b ! 0 ! 0) [[[1, 2]], [[3, 4]], [[5, 6]]])) *
                          (b ! 0 ! 1 - average (map (\<lambda>b. b ! 0 ! 1) [[[1, 2]], [[3, 4]], [[5, 6]]])))
                  [[[1, 2]], [[3, 4]], [[5, 6]]])"
    by blast
  with ss third have c4: "\<exists>W. BivariateDataset1D_cov ?st ?o3 = Inr W \<and> length W = 1 \<and>
         W ! 0 = Cov2 [[Fin (8 / 3), Fin (8 / 3)], [Fin (8 / 3), Fin (8 / 3)]]"
    by (simp add: average_def)
  from tc [THEN conjunct2, THEN conjunct2, THEN conjunct2, THEN conjunct2, THEN mp, OF p5]
  obtain v s where
    "std ?st ?o3 = Inr (Arr2 2 v)" "length v = 1" "length (v ! 0) = 2" "v ! 0 ! 1 = Fin s"
    "0 \<le> s"
    "s\<^sup>2 * real (length [[[1, 2]], [[3, 4]], [[5, 6 :: real]]] - 1) =
       sum_sq_dev (map (\<lambda>b. b ! 0 ! 1) [[[1, 2]], [[3, 4]], [[5, 6]]])"
    by blast
  with ss root have c5: "\<exists>v. std ?st ?o3 = Inr (Arr2 2 v) \<and> length v = 1 \<and>
      length (v ! 0) = 2 \<and> v ! 0 ! 1 = Fin 2"
    by auto
  from c1 c2 c3 c4 c5 show ?thesis by (intro conjI)
qed

subsection \<open>Singular values and principal axes\<close>

lemma eigen_from_svd_2x2:
  fixes a b d :: real
  assumes psd: "\<And>w0 w1. 0 \<le> a * w0 * w0 + 2 * b * w0 * w1 + d * w1 * w1"
    and s: "0 \<le> s"
    and cu: "a * vx + b * vy = s * p" "b * vx + d * vy = s * q"
    and cv: "a * p + b * q = s * vx" "b * p + d * q = s * vy"
  shows "a * vx + b * vy = s * vx" "b * vx + d * vy = s * vy"
proof -
  define w0 where "w0 = vx - p"
  define w1 where "w1 = vy - q"
  have e0: "a * w0 + b * w1 = - s * w0"
    using cu(1) cv(1) by (simp add: w0_def w1_def algebra_simps)
  have e1: "b * w0 + d * w1 = - s * w1"
    using cu(2) cv(2) by (simp add: w0_def w1_def algebra_simps)
  have "a * w0 * w0 + 2 * b * w0 * w1 + d * w1 * w1 =
      w0 * (a * w0 + b * w1) + w1 * (b * w0 + d * w1)"
    by (simp add: algebra_simps)
  also have "\<dots> = - (s * (w0 * w0 + w1 * w1))"
    by (simp add: e0 e1 algebra_simps)
  finally have "0 \<le> - (s * (w0 * w0 + w1 * w1))" using psd [of w0 w1] by simp
  moreover have "0 \<le> s * (w0 * w0 + w1 * w1)" using s by simp
  ultimately have z: "s * (w0 * w0 + w1 * w1) = 0" by simp
  have "s * w0 = 0 \<and> s * w1 = 0"
  proof (cases "s = 0")
    case True
    then show ?thesis by simp
  next
    case False
    with z have "w0 * w0 + w1 * w1 = 0" by simp
    then have "w0 = 0 \<and> w1 = 0" by (simp add: sum_squares_eq_zero_iff)
    then show ?thesis by simp
  qed
  then have "s * p = s * vx" "s * q = s * vy"
    by (auto simp: w0_def w1_def)
  with cu show "a * vx + b * vy = s * vx" "b * vx + d * vy = s * vy" by simp_all
qed

lemma quadratic_form_sum:
  fixes f g :: "'a \<Rightarrow> real"
  shows "sum_list (map (\<lambda>r. f r * f r) rows) * w0 * w0 +
         2 * sum_list (map (\<lambda>r. f r * g r) rows) * w0 * w1 +
         sum_list (map (\<lambda>r. g r * g r) rows) * w1 * w1 =
         sum_list (map (\<lambda>r. (w0 * f r + w1 * g r)\<^sup>2) rows)"
  by (induction rows) (simp_all add: algebra_simps power2_eq_square)

text \<open>The covariance of two columns is symmetric and positive semi-definite.\<close>

lemma cov_two_columns_psd:
  assumes "1 \<le> length rows"
    "c00 * real (length rows) = sum_sq_dev (map (\<lambda>r. r ! 0) rows)"
    "c11 * real (length rows) = sum_sq_dev (map (\<lambda>r. r ! 1) rows)"
    "c01 * real (length rows) =
       sum_list (map (\<lambda>r. (r ! 0 - average (map (\<lambda>r. r ! 0) rows)) *
                           (r ! 1 - average (map (\<lambda>r. r ! 1) rows))) rows)"
  shows "0 \<le> c00 * w0 * w0 + 2 * c01 * w0 * w1 + c11 * w1 * w1"
proof -
  let ?n = "real (length rows)"
  let ?f = "\<lambda>r. r ! 0 - average (map (\<lambda>r. r ! 0) rows)"
  let ?g = "\<lambda>r. r ! 1 - average (map (\<lambda>r. r ! 1) rows)"
  from assms(1) have n: "0 < ?n" by (cases rows) simp_all
  have "(c00 * w0 * w0 + 2 * c01 * w0 * w1 + c11 * w1 * w1) * ?n =
      (c00 * ?n) * w0 * w0 + 2 * (c01 * ?n) * w0 * w1 + (c11 * ?n) * w1 * w1"
    by (simp add: algebra_simps)
  also have "\<dots> = sum_list (map (\<lambda>r. ?f r * ?f r) rows) * w0 * w0 +
         2 * sum_list (map (\<lambda>r. ?f r * ?g r) rows) * w0 * w1 +
         sum_list (map (\<lambda>r. ?g r * ?g r) rows) * w1 * w1"
    by (simp add: assms(2-4) sum_sq_dev_def power2_eq_square o_def)
  also have "\<dots> = sum_list (map (\<lambda>r. (w0 * ?f r + w1 * ?g r)\<^sup>2) rows)"
    by (rule quadratic_form_sum)
  also have "0 \<le> \<dots>" by (rule sum_list_nonneg) auto
  finally have "0 \<le> (c00 * w0 * w0 + 2 * c01 * w0 * w1 + c11 * w1 * w1) * ?n" .
  with n show ?thesis by (simp add: zero_le_mult_iff)
qed

lemma two_by_two_entries:
  assumes "two_by_two m"
  shows "m = [[m ! 0 ! 0, m ! 0 ! 1], [m ! 1 ! 0, m ! 1 ! 1]]"
proof -
  have l2: "xs = [xs ! 0, xs ! 1]" if "length xs = 2" for xs :: "'a list"
    using that by (cases xs; cases "tl xs") auto
  from assms have "length m = 2" "length (m ! 0) = 2" "length (m ! 1) = 2"
    by (simp_all add: two_by_two_def)
  with l2 [of m] l2 [of "m ! 0"] l2 [of "m ! 1"] show ?thesis by metis
qed

lemma svd2_columns_are_eigenvectors:
  fixes c00 c01 c11 :: real
  assumes psd: "\<And>w0 w1. 0 \<le> c00 * w0 * w0 + 2 * c01 * w0 * w1 + c11 * w1 * w1"
    and sv: "0 \<le> s1" "s1 \<le> s0"
    and ucol: "u00\<^sup>2 + u10\<^sup>2 = 1" "u01\<^sup>2 + u11\<^sup>2 = 1" "u00 * u01 + u10 * u11 = 0"
    and rrow: "r00\<^sup>2 + r01\<^sup>2 = 1" "r10\<^sup>2 + r11\<^sup>2 = 1" "r00 * r10 + r01 * r11 = 0"
    and m00: "c00 = u00 * s0 * r00 + u01 * s1 * r10"
    and m01: "c01 = u00 * s0 * r01 + u01 * s1 * r11"
    and m10: "c01 = u10 * s0 * r00 + u11 * s1 * r10"
    and m11: "c11 = u10 * s0 * r01 + u11 * s1 * r11"
  shows "c00 * u00 + c01 * u10 = s0 * u00" "c01 * u00 + c11 * u10 = s0 * u10"
    "c00 * u01 + c01 * u11 = s1 * u01" "c01 * u01 + c11 * u11 = s1 * u11"
proof -
  have s0: "0 \<le> s0" using sv by simp
  \<comment> \<open>\<open>c u\<^sub>i = s\<^sub>i v\<^sub>i\<close>, from the orthonormal columns of \<open>U\<close>\<close>
  have a1: "c00 * u00 + c01 * u10 = s0 * r00"
  proof -
    have "c00 * u00 + c01 * u10 =
        s0 * r00 * (u00\<^sup>2 + u10\<^sup>2) + s1 * r10 * (u00 * u01 + u10 * u11)"
      unfolding m00 m10 by (simp add: algebra_simps power2_eq_square)
    then show ?thesis by (simp add: ucol)
  qed
  have a2: "c01 * u00 + c11 * u10 = s0 * r01"
  proof -
    have "c01 * u00 + c11 * u10 =
        s0 * r01 * (u00\<^sup>2 + u10\<^sup>2) + s1 * r11 * (u00 * u01 + u10 * u11)"
      unfolding m01 m11 by (simp add: algebra_simps power2_eq_square)
    then show ?thesis by (simp add: ucol)
  qed
  have a3: "c00 * u01 + c01 * u11 = s1 * r10"
  proof -
    have "c00 * u01 + c01 * u11 =
        s0 * r00 * (u00 * u01 + u10 * u11) + s1 * r10 * (u01\<^sup>2 + u11\<^sup>2)"
      unfolding m00 m10 by (simp add: algebra_simps power2_eq_square)
    then show ?thesis by (simp add: ucol)
  qed
  have a4: "c01 * u01 + c11 * u11 = s1 * r11"
  proof -
    have "c01 * u01 + c11 * u11 =
        s0 * r01 * (u00 * u01 + u10 * u11) + s1 * r11 * (u01\<^sup>2 + u11\<^sup>2)"
      unfolding m01 m11 by (simp add: algebra_simps power2_eq_square)
    then show ?thesis by (simp add: ucol)
  qed
  \<comment> \<open>\<open>c v\<^sub>i = s\<^sub>i u\<^sub>i\<close>, from the orthonormal rows of \<open>R\<close>\<close>
  have b1: "c00 * r00 + c01 * r01 = s0 * u00"
  proof -
    have "c00 * r00 + c01 * r01 =
        s0 * u00 * (r00\<^sup>2 + r01\<^sup>2) + s1 * u01 * (r00 * r10 + r01 * r11)"
      unfolding m00 m01 by (simp add: algebra_simps power2_eq_square)
    then show ?thesis by (simp add: rrow)
  qed
  have b2: "c01 * r00 + c11 * r01 = s0 * u10"
  proof -
    have "c01 * r00 + c11 * r01 =
        s0 * u10 * (r00\<^sup>2 + r01\<^sup>2) + s1 * u11 * (r00 * r10 + r01 * r11)"
      unfolding m10 m11 by (simp add: algebra_simps power2_eq_square)
    then show ?thesis by (simp add: rrow)
  qed
  have b3: "c00 * r10 + c01 * r11 = s1 * u01"
  proof -
    have "c00 * r10 + c01 * r11 =
        s0 * u00 * (r00 * r10 + r01 * r11) + s1 * u01 * (r10\<^sup>2 + r11\<^sup>2)"
      unfolding m00 m01 by (simp add: algebra_simps power2_eq_square)
    then show ?thesis by (simp add: rrow)
  qed
  have b4: "c01 * r10 + c11 * r11 = s1 * u11"
  proof -
    have "c01 * r10 + c11 * r11 =
        s0 * u10 * (r00 * r10 + r01 * r11) + s1 * u11 * (r10\<^sup>2 + r11\<^sup>2)"
      unfolding m10 m11 by (simp add: algebra_simps power2_eq_square)
    then show ?thesis by (simp add: rrow)
  qed
  from psd s0 a1 a2 b1 b2
  show "c00 * u00 + c01 * u10 = s0 * u00" "c01 * u00 + c11 * u10 = s0 * u10"
    by (rule eigen_from_svd_2x2)+
  from psd sv(1) a3 a4 b3 b4
  show "c00 * u01 + c01 * u11 = s1 * u01" "c01 * u01 + c11 * u11 = s1 * u11"
    by (rule eigen_from_svd_2x2)+
qed

lemma linalg_svd_Inr:
  assumes "linalg_svd svd (Cov2 c) = Inr usr"
  shows "NaN \<notin> set (concat c)" "svd (map (map fin_val) c) = Some usr"
  using assms by (auto split: if_splits option.splits)

lemma decompose_eigen:
  assumes c: "cov_matrix 1 (length rows) (map (\<lambda>i. map (\<lambda>r. r ! i) rows) [0..<n]) = Cov2 c"
    and d: "decompose svd (Cov2 c) = Inr (u, s, r')"
    and h: "\<forall>usr. svd (map (map fin_val) c) = Some usr \<longrightarrow> is_svd2 (map (map fin_val) c) usr"
  shows "\<exists>c00 c01 c10 c11 u00 u01 u10 u11 s0 s1.
     c = [[Fin c00, Fin c01], [Fin c10, Fin c11]] \<and>
     u = [[u00, u01], [u10, u11]] \<and> s = [s0, s1] \<and> s1 \<le> s0 \<and> 0 \<le> s1 \<and>
     u00\<^sup>2 + u10\<^sup>2 = 1 \<and> u01\<^sup>2 + u11\<^sup>2 = 1 \<and>
     c00 * u00 + c01 * u10 = s0 * u00 \<and> c10 * u00 + c11 * u10 = s0 * u10 \<and>
     c00 * u01 + c01 * u11 = s1 * u01 \<and> c10 * u01 + c11 * u11 = s1 * u11"
proof -
  from d obtain u0 r0 col dd where
    l: "linalg_svd svd (Cov2 c) = Inr (u0, s, r0)" and
    "column u0 0 = Inr col" "np_dot col [0, 1] = Inr dd" and
    f: "(u, r') = (if dd < 0 then (negated u0, negated r0) else (u0, r0))"
    by (rule decompose_cases)
  let ?m = "map (map fin_val) c"
  from linalg_svd_Inr [OF l] h have nn: "NaN \<notin> set (concat c)" and sv: "is_svd2 ?m (u0, s, r0)"
    by simp_all
  from sv have tm: "two_by_two ?m" and tu: "two_by_two u0" and tr: "two_by_two r0"
    and ls: "length s = 2"
    by (simp_all add: is_svd2_def)
  \<comment> \<open>the covariance is that of two columns over at least one observation\<close>
  from tm have lc: "length c = 2" by (simp add: two_by_two_def)
  have n2: "n = 2"
  proof -
    from c have "n \<noteq> 1" by (auto simp: cov_matrix_def Let_def)
    with c have "length c = n" by (auto simp: cov_matrix_def Let_def)
    with lc show ?thesis by simp
  qed
  have j: "1 \<le> length rows"
  proof (rule ccontr)
    assume "\<not> 1 \<le> length rows"
    then have "rows = []" by (cases rows) simp_all
    with c n2 have "c = [[NaN, NaN], [NaN, NaN]]"
      by (simp add: cov_matrix_def cov_entry_def cov_ddof_def upt_rec)
    with nn show False by simp
  qed
  from cov_two_columns [OF j, of 1] c n2 obtain c00 c01 c10 c11 where
    ce: "c = [[Fin c00, Fin c01], [Fin c10, Fin c11]]" and
    cs: "c00 * real (length rows) = sum_sq_dev (map (\<lambda>r. r ! 0) rows)"
      "c11 * real (length rows) = sum_sq_dev (map (\<lambda>r. r ! 1) rows)"
      "c01 = c10"
      "c01 * real (length rows) =
         sum_list (map (\<lambda>r. (r ! 0 - average (map (\<lambda>r. r ! 0) rows)) *
                             (r ! 1 - average (map (\<lambda>r. r ! 1) rows))) rows)"
    by auto
  have psd: "0 \<le> c00 * w0 * w0 + 2 * c01 * w0 * w1 + c11 * w1 * w1" for w0 w1
    using j cs(1,2,4) by (rule cov_two_columns_psd)
  \<comment> \<open>the entries of the decomposition\<close>
  define p00 p01 p10 p11 where "p00 = u0 ! 0 ! 0" and "p01 = u0 ! 0 ! 1"
    and "p10 = u0 ! 1 ! 0" and "p11 = u0 ! 1 ! 1"
  define s0 s1 where "s0 = s ! 0" and "s1 = s ! 1"
  define r00 r01 r10 r11 where "r00 = r0 ! 0 ! 0" and "r01 = r0 ! 0 ! 1"
    and "r10 = r0 ! 1 ! 0" and "r11 = r0 ! 1 ! 1"
  note defs = p00_def p01_def p10_def p11_def s0_def s1_def r00_def r01_def r10_def r11_def
  from two_by_two_entries [OF tu] have ue: "u0 = [[p00, p01], [p10, p11]]"
    by (simp add: defs)
  from ls have se: "s = [s0, s1]"
    by (cases s; cases "tl s") (auto simp: defs)
  from sv ce have
    o: "s1 \<le> s0" "0 \<le> s1" and
    uc: "p00\<^sup>2 + p10\<^sup>2 = 1" "p01\<^sup>2 + p11\<^sup>2 = 1" "p00 * p01 + p10 * p11 = 0" and
    rr: "r00\<^sup>2 + r01\<^sup>2 = 1" "r10\<^sup>2 + r11\<^sup>2 = 1" "r00 * r10 + r01 * r11 = 0" and
    m: "c00 = p00 * s0 * r00 + p01 * s1 * r10" "c01 = p00 * s0 * r01 + p01 * s1 * r11"
      "c10 = p10 * s0 * r00 + p11 * s1 * r10" "c11 = p10 * s0 * r01 + p11 * s1 * r11"
    by (simp_all add: is_svd2_def defs)
  from m(3) cs(3) have m10: "c01 = p10 * s0 * r00 + p11 * s1 * r10" by simp
  note e = svd2_columns_are_eigenvectors [OF psd o(2) o(1) uc rr m(1) m(2) m10 m(4)]
  show ?thesis
  proof (cases "dd < 0")
    case False
    with f ue have "u = [[p00, p01], [p10, p11]]" by simp
    with ce se o uc e cs(3) show ?thesis by auto
  next
    case True
    with f ue have "u = [[- p00, - p01], [- p10, - p11]]" by (simp add: negated_def)
    moreover from e have
      "c00 * (- p00) + c01 * (- p10) = s0 * (- p00)" "c10 * (- p00) + c11 * (- p10) = s0 * (- p10)"
      "c00 * (- p01) + c01 * (- p11) = s1 * (- p01)" "c10 * (- p01) + c11 * (- p11) = s1 * (- p11)"
      using cs(3) by simp_all
    moreover from uc have "(- p00)\<^sup>2 + (- p10)\<^sup>2 = 1" "(- p01)\<^sup>2 + (- p11)\<^sup>2 = 1"
      by simp_all
    ultimately show ?thesis using ce se o by blast
  qed
qed

lemma np_cov_rank2:
  assumes "np_cov (np_T a) bias = Inr w" "1 < length (shape a)"
  obtains n rows where "a = Arr2 n rows"
    "w = cov_matrix bias (length rows) (map (\<lambda>i. map (\<lambda>r. r ! i) rows) [0..<n])"
  using assms by (cases a) auto

lemma svd_axis_aligned_vertical:
  "\<forall>usr. svd_axis_aligned (map (map fin_val) [[Fin 0, Fin 0], [Fin 0, Fin 1]]) = Some usr \<longrightarrow>
     is_svd2 (map (map fin_val) [[Fin 0, Fin 0], [Fin 0, Fin 1]]) usr"
  by (auto simp: svd_axis_aligned_def is_svd2_def two_by_two_def)

text \<open>
  Claim C8 (descending singular values). Let the decomposition routine meet its
  contract on the covariance matrix of the sample. Then after construction of a
  \<^verbatim>\<open>BivariateDataset0D\<close> the stored singular values are \<open>[s0, s1]\<close> with
  \<open>s0 \<ge> s1 \<ge> 0\<close>, the columns of the stored \<open>U\<close> are unit vectors, the first column
  (\<^verbatim>\<open>Maxis\<close>) is an eigenvector of the covariance for \<open>s0\<close> and the second
  (\<^verbatim>\<open>maxis\<close>) one for \<open>s1\<close>. The same holds for the stored singular values and
  the stored \<open>U\<close> of every node of a \<^verbatim>\<open>BivariateDataset1D\<close>.
\<close>

theorem singular_values_and_axes:
  "(BivariateDataset_init svd st r = Inr self \<and> cov st self = Inr (Cov2 c) \<and>
     (\<forall>usr. svd (map (map fin_val) c) = Some usr \<longrightarrow> is_svd2 (map (map fin_val) c) usr) \<longrightarrow>
     (\<exists>c00 c01 c10 c11 u00 u01 u10 u11 s0 s1.
        c = [[Fin c00, Fin c01], [Fin c10, Fin c11]] \<and>
        priv_U self = Some (Arr2 2 [[u00, u01], [u10, u11]]) \<and>
        priv_s self = Some (Arr1 [s0, s1]) \<and>
        Maxis self = Inr (Arr1 [u00, u10]) \<and> maxis self = Inr (Arr1 [u01, u11]) \<and>
        s1 \<le> s0 \<and> 0 \<le> s1 \<and> u00\<^sup>2 + u10\<^sup>2 = 1 \<and> u01\<^sup>2 + u11\<^sup>2 = 1 \<and>
        c00 * u00 + c01 * u10 = s0 * u00 \<and> c10 * u00 + c11 * u10 = s0 * u10 \<and>
        c00 * u01 + c01 * u11 = s1 * u01 \<and> c10 * u01 + c11 * u11 = s1 * u11))
   \<and> (BivariateDataset1D_init svd st rb = Inr selfb \<and>
      BivariateDataset1D_cov st selfb = Inr W \<and> k < Q selfb \<and> W ! k = Cov2 cb \<and>
     (\<forall>usr. svd (map (map fin_val) cb) = Some usr \<longrightarrow> is_svd2 (map (map fin_val) cb) usr) \<longrightarrow>
     (\<exists>us ss c00 c01 c10 c11 u00 u01 u10 u11 s0 s1.
        cb = [[Fin c00, Fin c01], [Fin c10, Fin c11]] \<and>
        priv_U selfb = Some (np_array_matrices us) \<and>
        priv_s selfb = Some (np_array_vectors ss) \<and>
        length us = Q selfb \<and> length ss = Q selfb \<and>
        us ! k = [[u00, u01], [u10, u11]] \<and> ss ! k = [s0, s1] \<and>
        s1 \<le> s0 \<and> 0 \<le> s1 \<and> u00\<^sup>2 + u10\<^sup>2 = 1 \<and> u01\<^sup>2 + u11\<^sup>2 = 1 \<and>
        c00 * u00 + c01 * u10 = s0 * u00 \<and> c10 * u00 + c11 * u10 = s0 * u10 \<and>
        c00 * u01 + c01 * u11 = s1 * u01 \<and> c10 * u01 + c11 * u11 = s1 * u11))"
proof (intro conjI impI)
  assume h: "BivariateDataset_init svd st r = Inr self \<and> cov st self = Inr (Cov2 c) \<and>
     (\<forall>usr. svd (map (map fin_val) c) = Some usr \<longrightarrow> is_svd2 (map (map fin_val) c) usr)"
  then obtain a w u s r' where
    a: "deref st r = Inr a" and w: "np_cov (np_T a) 1 = Inr w" and
    d: "decompose svd w = Inr (u, s, r')" and
    f: "self = \<lparr>y = r, J = shape a ! 0, I = shape a ! 1,
             priv_U = Some (np_array_matrix u), priv_s = Some (Arr1 s),
             priv_R = Some (np_array_matrix r')\<rparr>" and
    l: "1 < length (shape a)"
    by (elim conjE BivariateDataset_init_fields)
  from h a w f have wc: "w = Cov2 c" by (simp add: cov_def get_cov_def)
  from w l obtain n rows where
    "w = cov_matrix 1 (length rows) (map (\<lambda>i. map (\<lambda>r. r ! i) rows) [0..<n])"
    by (rule np_cov_rank2)
  with wc have cm: "cov_matrix 1 (length rows) (map (\<lambda>i. map (\<lambda>r. r ! i) rows) [0..<n]) = Cov2 c"
    by simp
  from d wc have dc: "decompose svd (Cov2 c) = Inr (u, s, r')" by simp
  from h have hs: "\<forall>usr. svd (map (map fin_val) c) = Some usr \<longrightarrow>
      is_svd2 (map (map fin_val) c) usr" by simp
  from decompose_eigen [OF cm dc hs] obtain c00 c01 c10 c11 u00 u01 u10 u11 s0 s1 where
    e: "c = [[Fin c00, Fin c01], [Fin c10, Fin c11]]"
      "u = [[u00, u01], [u10, u11]]" "s = [s0, s1]" "s1 \<le> s0" "0 \<le> s1"
      "u00\<^sup>2 + u10\<^sup>2 = 1" "u01\<^sup>2 + u11\<^sup>2 = 1"
      "c00 * u00 + c01 * u10 = s0 * u00" "c10 * u00 + c11 * u10 = s0 * u10"
      "c00 * u01 + c01 * u11 = s1 * u01" "c10 * u01 + c11 * u11 = s1 * u11"
    by blast
  from f e(2,3) have
    "priv_U self = Some (Arr2 2 [[u00, u01], [u10, u11]])" "priv_s self = Some (Arr1 [s0, s1])"
    "Maxis self = Inr (Arr1 [u00, u10])" "maxis self = Inr (Arr1 [u01, u11])"
    by (simp_all add: np_array_matrix_def Maxis_def maxis_def)
  with e show "\<exists>c00 c01 c10 c11 u00 u01 u10 u11 s0 s1.
        c = [[Fin c00, Fin c01], [Fin c10, Fin c11]] \<and>
        priv_U self = Some (Arr2 2 [[u00, u01], [u10, u11]]) \<and>
        priv_s self = Some (Arr1 [s0, s1]) \<and>
        Maxis self = Inr (Arr1 [u00, u10]) \<and> maxis self = Inr (Arr1 [u01, u11]) \<and>
        s1 \<le> s0 \<and> 0 \<le> s1 \<and> u00\<^sup>2 + u10\<^sup>2 = 1 \<and> u01\<^sup>2 + u11\<^sup>2 = 1 \<and>
        c00 * u00 + c01 * u10 = s0 * u00 \<and> c10 * u00 + c11 * u10 = s0 * u10 \<and>
        c00 * u01 + c01 * u11 = s1 * u01 \<and> c10 * u01 + c11 * u11 = s1 * u11"
    by blast
next
  assume h: "BivariateDataset1D_init svd st rb = Inr selfb \<and>
      BivariateDataset1D_cov st selfb = Inr W \<and> k < Q selfb \<and> W ! k = Cov2 cb \<and>
     (\<forall>usr. svd (map (map fin_val) cb) = Some usr \<longrightarrow> is_svd2 (map (map fin_val) cb) usr)"
  then obtain a W' us ss rs where
    a: "deref st rb = Inr a" and
    c: "cov_nodes a 1 [0..<shape a ! 1] = Inr W'" and
    d: "decompose_nodes svd W' = Inr (us, ss, rs)" and
    f: "selfb = \<lparr>y = rb, J = shape a ! 0, I = shape a ! 2,
             priv_U = Some (np_array_matrices us), priv_s = Some (np_array_vectors ss),
             priv_R = Some (np_array_matrices rs), Q = shape a ! 1\<rparr>" and
    l: "2 < length (shape a)"
    by (elim conjE BivariateDataset1D_init_fields)
  from h a c f have ww: "W' = W"
    by (simp add: BivariateDataset1D_cov_def BivariateDataset1D_get_cov_def)
  from l obtain q n blocks where a3: "a = Arr3 q n blocks" by (cases a) auto
  from h f a3 have kq: "k < q" by simp
  from cov_nodes_map [of "[0..<q]" q n blocks 1] c a3 ww have
    "W = map (\<lambda>k. cov_matrix 1 (length blocks)
       (map (\<lambda>i. map (\<lambda>r. r ! i) (map (\<lambda>b. b ! k) blocks)) [0..<n])) [0..<q]"
    by simp
  with kq h have cm: "cov_matrix 1 (length (map (\<lambda>b. b ! k) blocks))
       (map (\<lambda>i. map (\<lambda>r. r ! i) (map (\<lambda>b. b ! k) blocks)) [0..<n]) = Cov2 cb"
    by simp
  from cov_nodes_nth [OF c] a3 ww have lw: "length W = q" by simp
  from decompose_nodes_nth [OF d] ww lw kq h have
    dc: "decompose svd (Cov2 cb) = Inr (us ! k, ss ! k, rs ! k)" and
    ln: "length us = q" "length ss = q"
    by auto
  from h have hs: "\<forall>usr. svd (map (map fin_val) cb) = Some usr \<longrightarrow>
      is_svd2 (map (map fin_val) cb) usr" by simp
  from decompose_eigen [OF cm dc hs] obtain c00 c01 c10 c11 u00 u01 u10 u11 s0 s1 where
    e: "cb = [[Fin c00, Fin c01], [Fin c10, Fin c11]]"
      "us ! k = [[u00, u01], [u10, u11]]" "ss ! k = [s0, s1]" "s1 \<le> s0" "0 \<le> s1"
      "u00\<^sup>2 + u10\<^sup>2 = 1" "u01\<^sup>2 + u11\<^sup>2 = 1"
      "c00 * u00 + c01 * u10 = s0 * u00" "c10 * u00 + c11 * u10 = s0 * u10"
      "c00 * u01 + c01 * u11 = s1 * u01" "c10 * u01 + c11 * u11 = s1 * u11"
    by blast
  from f a3 ln have
    "priv_U selfb = Some (np_array_matrices us)" "priv_s selfb = Some (np_array_vectors ss)"
    "length us = Q selfb" "length ss = Q selfb"
    by simp_all
  with e show "\<exists>us ss c00 c01 c10 c11 u00 u01 u10 u11 s0 s1.
        cb = [[Fin c00, Fin c01], [Fin c10, Fin c11]] \<and>
        priv_U selfb = Some (np_array_matrices us) \<and>
        priv_s selfb = Some (np_array_vectors ss) \<and>
        length us = Q selfb \<and> length ss = Q selfb \<and>
        us ! k = [[u00, u01], [u10, u11]] \<and> ss ! k = [s0, s1] \<and>
        s1 \<le> s0 \<and> 0 \<le> s1 \<and> u00\<^sup>2 + u10\<^sup>2 = 1 \<and> u01\<^sup>2 + u11\<^sup>2 = 1 \<and>
        c00 * u00 + c01 * u10 = s0 * u00 \<and> c10 * u00 + c11 * u10 = s0 * u10 \<and>
        c00 * u01 + c01 * u11 = s1 * u01 \<and> c10 * u01 + c11 * u11 = s1 * u11"
    by blast
qed

theorem singular_values_and_axes_witness:
  "BivariateDataset_init svd_axis_aligned
      [Arr2 2 [[0, - 1], [0, 1]], Arr3 1 2 [[[0, - 1]], [[0, 1]]]] (Base 0) =
     Inr \<lparr>y = Base 0, J = 2, I = 2, priv_U = Some (Arr2 2 [[0, - 1], [1, 0]]),
          priv_s = Some (Arr1 [1, 0]), priv_R = Some (Arr2 2 [[0, 1], [- 1, 0]])\<rparr>
   \<and> cov [Arr2 2 [[0, - 1], [0, 1]], Arr3 1 2 [[[0, - 1]], [[0, 1]]]]
        \<lparr>y = Base 0, J = 2, I = 2, priv_U = Some (Arr2 2 [[0, - 1], [1, 0]]),
          priv_s = Some (Arr1 [1, 0]), priv_R = Some (Arr2 2 [[0, 1], [- 1, 0]])\<rparr> =
     Inr (Cov2 [[Fin 0, Fin 0], [Fin 0, Fin 1]])
   \<and> (\<exists>u00 u01 u10 u11 s0 s1.
        Maxis \<lparr>y = Base 0, J = 2, I = 2, priv_U = Some (Arr2 2 [[0, - 1], [1, 0]]),
          priv_s = Some (Arr1 [1, 0]), priv_R = Some (Arr2 2 [[0, 1], [- 1, 0]])\<rparr> =
          Inr (Arr1 [u00, u10]) \<and>
        maxis \<lparr>y = Base 0, J = 2, I = 2, priv_U = Some (Arr2 2 [[0, - 1], [1, 0]]),
          priv_s = Some (Arr1 [1, 0]), priv_R = Some (Arr2 2 [[0, 1], [- 1, 0]])\<rparr> =
          Inr (Arr1 [u01, u11]) \<and>
        Some (Arr1 [1, 0]) = Some (Arr1 [s0, s1]) \<and>
        s1 \<le> s0 \<and> 0 \<le> s1 \<and> u00\<^sup>2 + u10\<^sup>2 = 1 \<and> u01\<^sup>2 + u11\<^sup>2 = 1 \<and>
        0 * u00 + 0 * u10 = s0 * u00 \<and> 0 * u00 + 1 * u10 = s0 * u10 \<and>
        0 * u01 + 0 * u11 = s1 * u01 \<and> 0 * u01 + 1 * u11 = s1 * u11)
   \<and> BivariateDataset1D_init svd_axis_aligned
      [Arr2 2 [[0, - 1], [0, 1]], Arr3 1 2 [[[0, - 1]], [[0, 1]]]] (Base 1) =
     Inr \<lparr>y = Base 1, J = 2, I = 2, priv_U = Some (Arr3 2 2 [[[0, - 1], [1, 0]]]),
          priv_s = Some (Arr2 2 [[1, 0]]), priv_R = Some (Arr3 2 2 [[[0, 1], [- 1, 0]]]),
          Q = 1\<rparr>
   \<and> (\<exists>us ss u00 u01 u10 u11 s0 s1.
        Some (Arr3 2 2 [[[0, - 1], [1, 0]]]) = Some (np_array_matrices us) \<and>
        Some (Arr2 2 [[1, 0]]) = Some (np_array_vectors ss) \<and>
        us ! 0 = [[u00, u01], [u10, u11]] \<and> ss ! 0 = [s0, s1] \<and>
        s1 \<le> s0 \<and> 0 \<le> s1 \<and> u00\<^sup>2 + u10\<^sup>2 = 1 \<and> u01\<^sup>2 + u11\<^sup>2 = 1 \<and>
        0 * u00 + 0 * u10 = s0 * u00 \<and> 0 * u00 + 1 * u10 = s0 * u10 \<and>
        0 * u01 + 0 * u11 = s1 * u01 \<and> 0 * u01 + 1 * u11 = s1 * u11)"
proof -
  let ?st = "[Arr2 2 [[0, - 1], [0, 1]], Arr3 1 2 [[[0, - 1]], [[0, 1]]]] :: store"
  let ?o0 = "\<lparr>y = Base 0, J = 2, I = 2, priv_U = Some (Arr2 2 [[0, - 1], [1, 0]]),
          priv_s = Some (Arr1 [1, 0]), priv_R = Some (Arr2 2 [[0, 1], [- 1, 0]])\<rparr>"
  let ?o1 = "\<lparr>y = Base 1, J = 2, I = 2, priv_U = Some (Arr3 2 2 [[[0, - 1], [1, 0]]]),
          priv_s = Some (Arr2 2 [[1, 0]]), priv_R = Some (Arr3 2 2 [[[0, 1], [- 1, 0]]]),
          Q = 1\<rparr>"
  let ?c = "[[Fin 0, Fin 0], [Fin 0, Fin 1]]"
  have p1: "BivariateDataset_init svd_axis_aligned ?st (Base 0) = Inr ?o0"
    by (simp add: evals)
  have p2: "cov ?st ?o0 = Inr (Cov2 ?c)"
    by (simp add: evals)
  have p3: "BivariateDataset1D_init svd_axis_aligned ?st (Base 1) = Inr ?o1"
    by (simp add: evals)
  have p4: "BivariateDataset1D_cov ?st ?o1 = Inr [Cov2 ?c]" "0 < Q ?o1" "[Cov2 ?c] ! 0 = Cov2 ?c"
    by (simp_all add: evals)
  note p5 = svd_axis_aligned_vertical
  note t = singular_values_and_axes [where svd = svd_axis_aligned and st = ?st and r = "Base 0"
      and self = ?o0 and c = ?c and rb = "Base 1" and selfb = ?o1 and W = "[Cov2 ?c]"
      and k = 0 and cb = ?c]
  have "\<exists>c00 c01 c10 c11 u00 u01 u10 u11 s0 s1.
        ?c = [[Fin c00, Fin c01], [Fin c10, Fin c11]] \<and>
        priv_U ?o0 = Some (Arr2 2 [[u00, u01], [u10, u11]]) \<and>
        priv_s ?o0 = Some (Arr1 [s0, s1]) \<and>
        Maxis ?o0 = Inr (Arr1 [u00, u10]) \<and> maxis ?o0 = Inr (Arr1 [u01, u11]) \<and>
        s1 \<le> s0 \<and> 0 \<le> s1 \<and> u00\<^sup>2 + u10\<^sup>2 = 1 \<and> u01\<^sup>2 + u11\<^sup>2 = 1 \<and>
        c00 * u00 + c01 * u10 = s0 * u00 \<and> c10 * u00 + c11 * u10 = s0 * u10 \<and>
        c00 * u01 + c01 * u11 = s1 * u01 \<and> c10 * u01 + c11 * u11 = s1 * u11"
    by (rule t [THEN conjunct1, THEN mp]) (intro conjI p1 p2 p5)
  then have c1: "\<exists>u00 u01 u10 u11 s0 s1.
        Maxis ?o0 = Inr (Arr1 [u00, u10]) \<and> maxis ?o0 = Inr (Arr1 [u01, u11]) \<and>
        Some (Arr1 [1, 0]) = Some (Arr1 [s0, s1]) \<and>
        s1 \<le> s0 \<and> 0 \<le> s1 \<and> u00\<^sup>2 + u10\<^sup>2 = 1 \<and> u01\<^sup>2 + u11\<^sup>2 = 1 \<and>
        0 * u00 + 0 * u10 = s0 * u00 \<and> 0 * u00 + 1 * u10 = s0 * u10 \<and>
        0 * u01 + 0 * u11 = s1 * u01 \<and> 0 * u01 + 1 * u11 = s1 * u11"
    by fastforce
  have "\<exists>us ss c00 c01 c10 c11 u00 u01 u10 u11 s0 s1.
        ?c = [[Fin c00, Fin c01], [Fin c10, Fin c11]] \<and>
        priv_U ?o1 = Some (np_array_matrices us) \<and>
        priv_s ?o1 = Some (np_array_vectors ss) \<and>
        length us = Q ?o1 \<and> length ss = Q ?o1 \<and>
        us ! 0 = [[u00, u01], [u10, u11]] \<and> ss ! 0 = [s0, s1] \<and>
        s1 \<le> s0 \<and> 0 \<le> s1 \<and> u00\<^sup>2 + u10\<^sup>2 = 1 \<and> u01\<^sup>2 + u11\<^sup>2 = 1 \<and>
        c00 * u00 + c01 * u10 = s0 * u00 \<and> c10 * u00 + c11 * u10 = s0 * u10 \<and>
        c00 * u01 + c01 * u11 = s1 * u01 \<and> c10 * u01 + c11 * u11 = s1 * u11"
    by (rule t [THEN conjunct2, THEN mp]) (intro conjI p3 p4 p5)
  then have c2: "\<exists>us ss u00 u01 u10 u11 s0 s1.
        Some (Arr3 2 2 [[[0, - 1], [1, 0]]]) = Some (np_array_matrices us) \<and>
        Some (Arr2 2 [[1, 0]]) = Some (np_array_vectors ss) \<and>
        us ! 0 = [[u00, u01], [u10, u11]] \<and> ss ! 0 = [s0, s1] \<and>
        s1 \<le> s0 \<and> 0 \<le> s1 \<and> u00\<^sup>2 + u10\<^sup>2 = 1 \<and> u01\<^sup>2 + u11\<^sup>2 = 1 \<and>
        0 * u00 + 0 * u10 = s0 * u00 \<and> 0 * u00 + 1 * u10 = s0 * u10 \<and>
        0 * u01 + 0 * u11 = s1 * u01 \<and> 0 * u01 + 1 * u11 = s1 * u11"
    by fastforce
  from p1 p2 c1 p3 c2 show ?thesis by (intro conjI)
qed

end
